theory Spec2Isabelle
  imports Main
begin

section \<open>Data model\<close>

text \<open>
  Instants (\<open>datetime.utcnow()\<close>, a token's \<open>exp\<close>) are seconds since the epoch.
  Every operation that reads the clock takes the instant as its argument \<open>now\<close>.
\<close>

type_synonym datetime = int

text \<open>\<open>app/db/models/user.py\<close>: the columns the token subsystem reads.\<close>

record user =
  user_id :: int
  email :: string
  hashed_password :: string
  is_active :: bool

text \<open>
  \<open>app/db/models/refresh_token.py\<close>. The surrogate primary key is left out: no
  operation below reads it; rows are addressed by \<open>jti\<close>, which has a UNIQUE constraint.
\<close>

record refresh_token =
  rt_user_id :: int
  rt_jti :: string
  rt_expires_at :: datetime
  rt_created_at :: datetime
  rt_revoked :: bool
  rt_revoked_at :: "datetime option"
  rt_device_info :: "string option"
  rt_ip_address :: "string option"

text \<open>\<open>app/db/models/token_blocklist.py\<close>; \<open>jti\<close> is UNIQUE here as well.\<close>

record token_blocklist =
  bl_jti :: string
  bl_token_type :: string
  bl_user_id :: "int option"
  bl_expires_at :: datetime
  bl_revoked_at :: datetime
  bl_reason :: "string option"

record tables =
  users :: "user list"
  refresh_tokens :: "refresh_token list"
  blocklist :: "token_blocklist list"

text \<open>\<open>RefreshToken.is_valid\<close>, \<open>RefreshToken.revoke\<close> and \<open>TokenBlocklist.is_expired\<close>.\<close>

definition is_valid :: "refresh_token \<Rightarrow> datetime \<Rightarrow> bool" where
  "is_valid t now = (\<not> rt_revoked t \<and> rt_expires_at t > now)"

definition revoke :: "refresh_token \<Rightarrow> datetime \<Rightarrow> refresh_token" where
  "revoke t now = t\<lparr>rt_revoked := True, rt_revoked_at := Some now\<rparr>"

definition is_expired :: "token_blocklist \<Rightarrow> datetime \<Rightarrow> bool" where
  "is_expired b now = (now > bl_expires_at b)"

text \<open>The settings of \<open>app/config.py\<close> that the subsystem reads.\<close>

record settings =
  ACCESS_TOKEN_EXPIRE_MINUTES :: int
  REFRESH_TOKEN_EXPIRE_DAYS :: int
  RATE_LIMIT_ENABLED :: bool
  RATE_LIMIT_PER_MINUTE :: int
  RATE_LIMIT_PER_HOUR :: int
  BRUTE_FORCE_MAX_ATTEMPTS :: int
  BRUTE_FORCE_LOCKOUT_MINUTES :: int

definition default_settings :: settings where
  "default_settings =
     \<lparr>ACCESS_TOKEN_EXPIRE_MINUTES = 15, REFRESH_TOKEN_EXPIRE_DAYS = 30,
      RATE_LIMIT_ENABLED = True, RATE_LIMIT_PER_MINUTE = 60, RATE_LIMIT_PER_HOUR = 1000,
      BRUTE_FORCE_MAX_ATTEMPTS = 5, BRUTE_FORCE_LOCKOUT_MINUTES = 15\<rparr>"

section \<open>Signed tokens\<close>

text \<open>
  A token string is modelled by what \<open>jose.jwt\<close> finds in it: whether the signature
  verifies under the server's key, and the claims. A string that is no JWT at all is a
  token whose signature does not verify. The claims are the four keys the code reads
  and the three further keys the library checks by default; a key that is absent is
  \<open>None\<close>. The registered claims have the JSON types that RFC 7519 gives them and
  that the issuer writes: text for \<open>sub\<close>, \<open>jti\<close> and \<open>at_hash\<close>, whole numbers of
  seconds for \<open>exp\<close>, \<open>nbf\<close> and \<open>iat\<close>, a list of texts for \<open>aud\<close> (a single text being
  a list of one); a token with a registered claim of another JSON type is not covered.
  With these types the library's checks of \<open>iat\<close>, \<open>sub\<close> and \<open>jti\<close>, which are checks
  of the type, pass, and \<open>iss\<close> is not checked when no issuer is passed. A \<open>type\<close>
  claim that is not a text compares unequal to the expected text, as a different text
  does.
\<close>

record claims =
  c_sub :: "string option"
  c_jti :: "string option"
  c_type :: "string option"
  c_exp :: "datetime option"
  c_nbf :: "datetime option"
  c_aud :: "string list option"
  c_at_hash :: "string option"

record jwt =
  signature_ok :: bool
  payload :: claims

datatype claim_message =
    Token_not_yet_valid | Invalid_audience | No_access_token_for_at_hash

datatype jwt_error = JWTError | ExpiredSignatureError | JWTClaimsError claim_message

text \<open>
  \<open>jwt.decode(token, key, algorithms, options={"verify_exp": ...})\<close> of the library,
  called with no audience, issuer, subject or access token. The signature is verified
  first. Then the claims are checked in the library's order: \<open>nbf\<close> (a present \<open>nbf\<close>
  after the current second raises \<open>JWTClaimsError\<close>); \<open>exp\<close>, unless \<open>verify_exp\<close> is off
  (a present \<open>exp\<close> before the current second raises \<open>ExpiredSignatureError\<close>); \<open>aud\<close>
  (a present \<open>aud\<close> never holds the audience \<open>None\<close>, so it raises); \<open>at_hash\<close> (present
  without an access token to compare with, it raises). All three exceptions are
  \<open>JWTError\<close>s.
\<close>

definition claims_error :: "bool \<Rightarrow> datetime \<Rightarrow> claims \<Rightarrow> jwt_error option" where
  "claims_error verify_exp now p =
     (if (case c_nbf p of None \<Rightarrow> False | Some n \<Rightarrow> now < n)
      then Some (JWTClaimsError Token_not_yet_valid)
      else if verify_exp \<and> (case c_exp p of None \<Rightarrow> False | Some e \<Rightarrow> e < now)
      then Some ExpiredSignatureError
      else if c_aud p \<noteq> None then Some (JWTClaimsError Invalid_audience)
      else if c_at_hash p \<noteq> None then Some (JWTClaimsError No_access_token_for_at_hash)
      else None)"

definition jwt_decode :: "bool \<Rightarrow> datetime \<Rightarrow> jwt \<Rightarrow> jwt_error + claims" where
  "jwt_decode verify_exp now token =
     (if \<not> signature_ok token then Inl JWTError
      else case claims_error verify_exp now (payload token) of
             Some e \<Rightarrow> Inl e
           | None \<Rightarrow> Inr (payload token))"

text \<open>Python's truth value of \<open>payload.get(key)\<close>: absent and empty are both false.\<close>

definition truthy :: "string option \<Rightarrow> bool" where
  "truthy v = (case v of None \<Rightarrow> False | Some s \<Rightarrow> s \<noteq> [])"

text \<open>
  \<open>create_access_token\<close>: \<open>data\<close> is the dictionary passed in, \<open>uuid\<close> the value of
  \<open>str(uuid.uuid4())\<close>, \<open>expires_delta\<close> in seconds (a zero \<open>timedelta\<close> is false in
  Python, so the default applies to it too).
\<close>

definition create_access_token ::
  "settings \<Rightarrow> claims \<Rightarrow> int option \<Rightarrow> datetime \<Rightarrow> string \<Rightarrow> jwt" where
  "create_access_token cfg data expires_delta now uuid =
     (let delta = (case expires_delta of
                     None \<Rightarrow> ACCESS_TOKEN_EXPIRE_MINUTES cfg * 60
                   | Some d \<Rightarrow> if d \<noteq> 0 then d else ACCESS_TOKEN_EXPIRE_MINUTES cfg * 60);
          expire = now + delta
      in \<lparr>signature_ok = True,
          payload = data\<lparr>c_exp := Some expire, c_type := Some ''access'', c_jti := Some uuid\<rparr>\<rparr>)"

section \<open>Responses\<close>

text \<open>
  The \<open>detail\<close> of each \<open>HTTPException\<close> the subsystem raises, one constructor per
  message of the source (two of them are Hebrew text there and carry numbers).
\<close>

datatype detail =
    Cannot_validate_credentials
  | Token_has_been_revoked
  | User_account_is_inactive
  | Invalid_token_type
  | Invalid_token_payload
  | Token_revoked_or_does_not_exist
  | Token_has_expired
  | User_not_found_or_inactive
  | Could_not_validate_token
  | Not_authenticated
  | Account_locked int int
  | Wrong_email_or_password int

datatype http_exception = HTTPException nat detail "(string \<times> string) list"

definition credentials_exception :: http_exception where
  "credentials_exception =
     HTTPException 401 Cannot_validate_credentials [(''WWW-Authenticate'', ''Bearer'')]"

section \<open>Revocation registry lookup and the access-token validator\<close>

definition get_user_by_email :: "tables \<Rightarrow> string \<Rightarrow> user option" where
  "get_user_by_email db e = find (\<lambda>u. email u = e) (users db)"

definition check_token_blocklist :: "tables \<Rightarrow> datetime \<Rightarrow> string \<Rightarrow> bool" where
  "check_token_blocklist db now j =
     (find (\<lambda>b. bl_jti b = j \<and> bl_expires_at b > now) (blocklist db) \<noteq> None)"

text \<open>
  The ways \<open>get_current_user\<close> rejects: \<open>jwt.decode\<close> failing on the signature, on
  \<open>nbf\<close>, on the expiry, or on \<open>aud\<close> or \<open>at_hash\<close>; then the \<open>raise\<close> statements in
  the order of the source text: the type test, the \<open>email is None\<close> test, the blocklist
  test, the missing user, the inactive user.
\<close>

datatype branch =
    Malformed | Not_yet_valid | Expired | Bad_claims | Wrong_type | No_subject | Revoked
  | Unknown_subject | Inactive_subject

fun decode_branch :: "jwt_error \<Rightarrow> branch" where
  "decode_branch JWTError = Malformed"
| "decode_branch ExpiredSignatureError = Expired"
| "decode_branch (JWTClaimsError Token_not_yet_valid) = Not_yet_valid"
| "decode_branch (JWTClaimsError Invalid_audience) = Bad_claims"
| "decode_branch (JWTClaimsError No_access_token_for_at_hash) = Bad_claims"

definition get_current_user_branch :: "tables \<Rightarrow> datetime \<Rightarrow> jwt \<Rightarrow> branch + user" where
  "get_current_user_branch db now token =
     (case jwt_decode True now token of
        Inl e \<Rightarrow> Inl (decode_branch e)
      | Inr p \<Rightarrow>
          if c_type p \<noteq> Some ''access'' then Inl Wrong_type
          else (case c_sub p of
            None \<Rightarrow> Inl No_subject
          | Some e \<Rightarrow>
              if (case c_jti p of None \<Rightarrow> False
                  | Some j \<Rightarrow> j \<noteq> [] \<and> check_token_blocklist db now j)
              then Inl Revoked
              else (case get_user_by_email db e of
                None \<Rightarrow> Inl Unknown_subject
              | Some u \<Rightarrow> if \<not> is_active u then Inl Inactive_subject else Inr u)))"

text \<open>What each \<open>raise\<close> statement sends to the caller.\<close>

fun raised :: "branch \<Rightarrow> http_exception" where
  "raised Malformed = credentials_exception"
| "raised Not_yet_valid = credentials_exception"
| "raised Expired = credentials_exception"
| "raised Bad_claims = credentials_exception"
| "raised Wrong_type = credentials_exception"
| "raised No_subject = credentials_exception"
| "raised Revoked =
     HTTPException 401 Token_has_been_revoked [(''WWW-Authenticate'', ''Bearer'')]"
| "raised Unknown_subject = credentials_exception"
| "raised Inactive_subject = HTTPException 403 User_account_is_inactive []"

definition get_current_user :: "tables \<Rightarrow> datetime \<Rightarrow> jwt \<Rightarrow> http_exception + user" where
  "get_current_user db now token =
     (case get_current_user_branch db now token of
        Inl b \<Rightarrow> Inl (raised b)
      | Inr u \<Rightarrow> Inr u)"

section \<open>The database session\<close>

text \<open>
  A SQLAlchemy session (\<open>autocommit=False, autoflush=False\<close>): \<open>cur\<close> is what the
  session's transaction holds, \<open>durable\<close> the last committed state, and \<open>commits\<close>
  the states committed so far, latest first. No operation below queries a table that
  has changes of the session not yet written, so one view serves the queries.
  \<open>db_close\<close> is the \<open>finally: db.close()\<close> of \<open>get_db\<close>, which drops what was not
  committed. The database answers every statement: of its errors only the violation
  of the UNIQUE constraint on \<open>jti\<close> is modelled, where the code can meet it.
\<close>

record session =
  cur :: tables
  durable :: tables
  commits :: "tables list"

definition open_session :: "tables \<Rightarrow> session" where
  "open_session T = \<lparr>cur = T, durable = T, commits = []\<rparr>"

definition db_commit :: "session \<Rightarrow> session" where
  "db_commit s = s\<lparr>durable := cur s, commits := cur s # commits s\<rparr>"

definition db_close :: "session \<Rightarrow> session" where
  "db_close s = s\<lparr>cur := durable s\<rparr>"

text \<open>
  What can leave an endpoint: an \<open>HTTPException\<close>, answered with its status; the
  \<open>RateLimitExceeded\<close> of the rate-limit decorator, answered 429; and exceptions that
  nothing catches, answered 500: \<open>IntegrityError\<close> of the database, \<open>ValueError\<close> of
  \<open>utcfromtimestamp\<close>, the exception of the Redis client under the decorator's storage
  (\<open>StorageError\<close>), and the exception of the decorator that finds no response object
  for its headers (\<open>ResponseMissing\<close>). A limit of the decorator is its amount, its
  window in seconds, and the text that ends its key.
\<close>

record rate_limit_item =
  amount :: int
  expiry :: int
  item_text :: string

datatype exn =
    Http http_exception | IntegrityError | ValueError
  | StorageError | RateLimitExceeded rate_limit_item | ResponseMissing

section \<open>Refresh token store\<close>

text \<open>
  \<open>create_refresh_token\<close>: \<open>uuid\<close> is \<open>str(uuid.uuid4())\<close>. The commit fails on the
  UNIQUE constraint when the table already has the \<open>jti\<close>.
\<close>

definition create_refresh_token ::
  "settings \<Rightarrow> session \<Rightarrow> user \<Rightarrow> string option \<Rightarrow> string option \<Rightarrow> datetime \<Rightarrow> string
     \<Rightarrow> exn + (jwt \<times> refresh_token \<times> session)" where
  "create_refresh_token cfg s usr device_info ip_address now uuid =
     (let jti = uuid;
          expires_at = now + REFRESH_TOKEN_EXPIRE_DAYS cfg * 86400;
          token_data = \<lparr>c_sub = Some (email usr), c_jti = Some jti,
                        c_type = Some ''refresh'', c_exp = Some expires_at,
                        c_nbf = None, c_aud = None, c_at_hash = None\<rparr>;
          token_string = \<lparr>signature_ok = True, payload = token_data\<rparr>;
          db_token = \<lparr>rt_user_id = user_id usr, rt_jti = jti, rt_expires_at = expires_at,
                      rt_created_at = now, rt_revoked = False, rt_revoked_at = None,
                      rt_device_info = device_info, rt_ip_address = ip_address\<rparr>
      in if jti \<in> set (map rt_jti (refresh_tokens (cur s))) then Inl IntegrityError
         else Inr (token_string, db_token,
                   db_commit (s\<lparr>cur := (cur s)\<lparr>refresh_tokens :=
                                refresh_tokens (cur s) @ [db_token]\<rparr>\<rparr>)))"

definition unauthorized :: "detail \<Rightarrow> http_exception" where
  "unauthorized d = HTTPException 401 d []"

definition verify_refresh_token ::
  "tables \<Rightarrow> datetime \<Rightarrow> jwt \<Rightarrow> http_exception + (user \<times> refresh_token)" where
  "verify_refresh_token db now token =
     (case jwt_decode True now token of
        Inl e \<Rightarrow> Inl (unauthorized Could_not_validate_token)
      | Inr p \<Rightarrow>
          if c_type p \<noteq> Some ''refresh'' then Inl (unauthorized Invalid_token_type)
          else if \<not> truthy (c_jti p) \<or> \<not> truthy (c_sub p)
          then Inl (unauthorized Invalid_token_payload)
          else (case (c_jti p, c_sub p) of
            (Some jti, Some e) \<Rightarrow>
              (case find (\<lambda>t. rt_jti t = jti \<and> rt_revoked t = False) (refresh_tokens db) of
                 None \<Rightarrow> Inl (unauthorized Token_revoked_or_does_not_exist)
               | Some db_token \<Rightarrow>
                   if \<not> is_valid db_token now then Inl (unauthorized Token_has_expired)
                   else (case find (\<lambda>u. email u = e) (users db) of
                      None \<Rightarrow> Inl (unauthorized User_not_found_or_inactive)
                    | Some u \<Rightarrow>
                        if \<not> is_active u then Inl (unauthorized User_not_found_or_inactive)
                        else Inr (u, db_token)))
          | _ \<Rightarrow> Inl (unauthorized Invalid_token_payload)))"

text \<open>
  \<open>old_token.revoke(); db.add(old_token)\<close>: the row of the object is rewritten. Rows
  are identified by their key, here the unique \<open>jti\<close>.
\<close>

definition revoke_row :: "refresh_token \<Rightarrow> datetime \<Rightarrow> session \<Rightarrow> session" where
  "revoke_row tok now s =
     s\<lparr>cur := (cur s)\<lparr>refresh_tokens :=
          map (\<lambda>t. if rt_jti t = rt_jti tok then revoke t now else t)
              (refresh_tokens (cur s))\<rparr>\<rparr>"

section \<open>Revocation registry\<close>

text \<open>
  \<open>block_access_token\<close> and \<open>block_refresh_token\<close> differ in the \<open>token_type\<close> they
  write and are one body otherwise.
\<close>

definition block_token ::
  "string \<Rightarrow> session \<Rightarrow> string \<Rightarrow> datetime \<Rightarrow> int option \<Rightarrow> string option \<Rightarrow> datetime
     \<Rightarrow> token_blocklist \<times> session" where
  "block_token ty s jti expires_at uid reason now =
     (case find (\<lambda>b. bl_jti b = jti) (blocklist (cur s)) of
        Some existing \<Rightarrow> (existing, s)
      | None \<Rightarrow>
          (let blocked = \<lparr>bl_jti = jti, bl_token_type = ty, bl_user_id = uid,
                          bl_expires_at = expires_at, bl_revoked_at = now,
                          bl_reason = reason\<rparr>
           in (blocked,
               db_commit (s\<lparr>cur := (cur s)\<lparr>blocklist := blocklist (cur s) @ [blocked]\<rparr>\<rparr>))))"

definition block_access_token ::
  "session \<Rightarrow> string \<Rightarrow> datetime \<Rightarrow> int option \<Rightarrow> string option \<Rightarrow> datetime
     \<Rightarrow> token_blocklist \<times> session" where
  "block_access_token = block_token ''access''"

definition block_refresh_token ::
  "session \<Rightarrow> string \<Rightarrow> datetime \<Rightarrow> int option \<Rightarrow> string option \<Rightarrow> datetime
     \<Rightarrow> token_blocklist \<times> session" where
  "block_refresh_token = block_token ''refresh''"

text \<open>
  \<open>revoke_all_user_tokens\<close>: the bulk \<open>UPDATE\<close> runs in the transaction at once and
  returns the number of rows it matched; the query after it reads the rows as the
  \<open>UPDATE\<close> left them; the loop blocks what that query returned; one commit ends it.
\<close>

definition revoke_all_user_tokens :: "session \<Rightarrow> datetime \<Rightarrow> int \<Rightarrow> nat \<times> session" where
  "revoke_all_user_tokens s now uid =
     (let refresh_count =
            length (filter (\<lambda>t. rt_user_id t = uid \<and> rt_revoked t = False)
                      (refresh_tokens (cur s)));
          s1 = s\<lparr>cur := (cur s)\<lparr>refresh_tokens :=
                 map (\<lambda>t. if rt_user_id t = uid \<and> rt_revoked t = False
                          then t\<lparr>rt_revoked := True, rt_revoked_at := Some now\<rparr> else t)
                     (refresh_tokens (cur s))\<rparr>\<rparr>;
          toks = filter (\<lambda>t. rt_user_id t = uid \<and> rt_revoked t = False)
                   (refresh_tokens (cur s1));
          s2 = fold (\<lambda>tok s'. snd (block_refresh_token s' (rt_jti tok) (rt_expires_at tok)
                                    (Some uid) (Some ''User logout all devices'') now))
                 toks s1
      in (refresh_count, db_commit s2))"

section \<open>Requests and endpoints\<close>

text \<open>
  The parts of a request the endpoints read. \<open>authorization\<close> is the Authorization
  header, split at its first blank into the scheme word and the token after it.
\<close>

record request =
  x_forwarded_for :: "string option"
  x_real_ip :: "string option"
  client_host :: "string option"
  user_agent :: "string option"
  authorization :: "(string \<times> jwt) option"

text \<open>
  \<open>RateLimiter._get_client_ip\<close> (named without the underscore here). \<open>strip\<close> removes
  the white space of a latin-1 header value that \<open>str.strip()\<close> removes; \<open>split(",")[0]\<close> is the text before
  the first comma.
\<close>

definition is_space :: "char \<Rightarrow> bool" where
  "is_space c = (c \<in> set [CHR '' '', CHR 0x09, CHR 0x0A, CHR 0x0B, CHR 0x0C, CHR 0x0D,
                           CHR 0x1C, CHR 0x1D, CHR 0x1E, CHR 0x1F, CHR 0x85, CHR 0xA0])"

definition strip :: "string \<Rightarrow> string" where
  "strip s = rev (dropWhile is_space (rev (dropWhile is_space s)))"

definition get_client_ip :: "request \<Rightarrow> string" where
  "get_client_ip req =
     (if truthy (x_forwarded_for req)
      then strip (takeWhile (\<lambda>c. c \<noteq> CHR '','')
                    (case x_forwarded_for req of Some v \<Rightarrow> v | None \<Rightarrow> []))
      else if truthy (x_real_ip req)
      then strip (case x_real_ip req of Some v \<Rightarrow> v | None \<Rightarrow> [])
      else (case client_host req of Some h \<Rightarrow> h | None \<Rightarrow> ''unknown''))"

record token_response =
  access_token :: jwt
  refresh_token :: jwt
  token_type :: string
  expires_in :: int

definition subject_only :: "string \<Rightarrow> claims" where
  "subject_only e = \<lparr>c_sub = Some e, c_jti = None, c_type = None, c_exp = None,
                      c_nbf = None, c_aud = None, c_at_hash = None\<rparr>"

definition agent_of :: "request \<Rightarrow> string" where
  "agent_of req = take 255 (case user_agent req of Some a \<Rightarrow> a | None \<Rightarrow> [])"

text \<open>
  \<open>POST /auth/refresh\<close>. \<open>uuid_a\<close> and \<open>uuid_r\<close> are the two \<open>uuid4\<close> values drawn for
  the new access and refresh token.
\<close>

definition refresh_tokens_endpoint ::
  "settings \<Rightarrow> request \<Rightarrow> jwt \<Rightarrow> datetime \<Rightarrow> string \<Rightarrow> string \<Rightarrow> session
     \<Rightarrow> (exn + token_response) \<times> session" where
  "refresh_tokens_endpoint cfg req body now uuid_a uuid_r s =
     (case verify_refresh_token (cur s) now body of
        Inl e \<Rightarrow> (Inl (Http e), db_close s)
      | Inr (usr, old_token) \<Rightarrow>
          (let s1 = revoke_row old_token now s;
               s2 = snd (block_refresh_token s1 (rt_jti old_token) (rt_expires_at old_token)
                           (Some (user_id usr)) (Some ''Token rotation'') now);
               client_ip = get_client_ip req;
               agent = agent_of req;
               acc = create_access_token cfg (subject_only (email usr)) None now uuid_a
           in case create_refresh_token cfg s2 usr (Some agent) (Some client_ip) now uuid_r of
                Inl e \<Rightarrow> (Inl e, db_close s2)
              | Inr (new_token, _, s3) \<Rightarrow>
                  (Inr \<lparr>access_token = acc, refresh_token = new_token,
                        token_type = ''bearer'',
                        expires_in = ACCESS_TOKEN_EXPIRE_MINUTES cfg * 60\<rparr>,
                   db_close s3)))"

text \<open>
  The two readings of the Authorization header. The endpoints test
  \<open>auth_header.startswith("Bearer ")\<close>: the scheme word as written. The dependency
  \<open>oauth2_scheme\<close> (\<open>OAuth2PasswordBearer\<close>) compares \<open>scheme.lower()\<close> with \<open>bearer\<close>.
\<close>

definition lower_char :: "char \<Rightarrow> char" where
  "lower_char c =
     (if c \<in> set ''ABCDEFGHIJKLMNOPQRSTUVWXYZ''
      then char_of (of_char c + (32 :: nat)) else c)"

definition bearer_token :: "request \<Rightarrow> jwt option" where
  "bearer_token req =
     (case authorization req of
        None \<Rightarrow> None
      | Some (scheme, token) \<Rightarrow> if scheme = ''Bearer'' then Some token else None)"

definition oauth2_scheme :: "request \<Rightarrow> jwt option" where
  "oauth2_scheme req =
     (case authorization req of
        None \<Rightarrow> None
      | Some (scheme, token) \<Rightarrow>
          if map lower_char scheme = ''bearer'' then Some token else None)"

text \<open>
  \<open>datetime.utcfromtimestamp\<close>: the seconds of the years 1 to 9999 are converted, any
  other number raises (\<open>ValueError\<close>, or \<open>OverflowError\<close> or \<open>OSError\<close> by platform;
  the one constructor \<open>ValueError\<close> stands for the three, none of which is a
  \<open>JWTError\<close> or an \<open>HTTPException\<close>).
\<close>

definition utcfromtimestamp :: "int \<Rightarrow> exn + datetime" where
  "utcfromtimestamp t =
     (if - 62135596800 \<le> t \<and> t \<le> 253402300799 then Inr t else Inl ValueError)"

text \<open>
  The block shared by \<open>logout\<close> and \<open>logout_all_devices\<close> that puts the presented
  access token on the blocklist: decoded without the expiry check, skipped on a
  \<open>JWTError\<close> and when \<open>jti\<close> or \<open>exp\<close> is false in Python's sense. The \<open>try\<close> catches
  \<open>JWTError\<close> only: what \<open>utcfromtimestamp\<close> raises leaves the block and the endpoint.
\<close>

definition block_presented ::
  "jwt \<Rightarrow> (claims \<Rightarrow> int option) \<Rightarrow> string \<Rightarrow> datetime \<Rightarrow> session \<Rightarrow> exn + session" where
  "block_presented token uid_of reason now s =
     (case jwt_decode False now token of
        Inl e \<Rightarrow> Inr s
      | Inr p \<Rightarrow>
          (case (c_jti p, c_exp p) of
             (Some jti, Some ex) \<Rightarrow>
               if jti \<noteq> [] \<and> ex \<noteq> 0
               then (case utcfromtimestamp ex of
                       Inl err \<Rightarrow> Inl err
                     | Inr expires_at \<Rightarrow>
                         Inr (snd (block_access_token s jti expires_at (uid_of p)
                                     (Some reason) now)))
               else Inr s
           | _ \<Rightarrow> Inr s))"

definition logout_user_id :: "tables \<Rightarrow> claims \<Rightarrow> int option" where
  "logout_user_id db p =
     (case c_sub p of
        None \<Rightarrow> None
      | Some e \<Rightarrow> if e = [] then None
                  else map_option user_id (find (\<lambda>u. email u = e) (users db)))"

text \<open>
  \<open>POST /auth/logout\<close>; \<open>body\<close> is the refresh token of the body, if there is one. An
  exception that leaves the endpoint is answered with status 500 by the framework; the
  session is closed with nothing more committed.
\<close>

definition logout ::
  "request \<Rightarrow> jwt option \<Rightarrow> datetime \<Rightarrow> session \<Rightarrow> (exn + nat) \<times> session" where
  "logout req body now s =
     (case (case bearer_token req of
              None \<Rightarrow> Inr s
            | Some token \<Rightarrow>
                block_presented token (logout_user_id (cur s)) ''User logout'' now s) of
        Inl err \<Rightarrow> (Inl err, db_close s)
      | Inr s1 \<Rightarrow>
          (let s2 = (case body of
                       None \<Rightarrow> s1
                     | Some rt \<Rightarrow>
                         (case verify_refresh_token (cur s1) now rt of
                            Inl e \<Rightarrow> s1
                          | Inr (_, tok) \<Rightarrow>
                              db_commit
                                (snd (block_refresh_token (revoke_row tok now s1) (rt_jti tok)
                                        (rt_expires_at tok) (Some (rt_user_id tok))
                                        (Some ''User logout'') now))))
           in (Inr 204, db_close s2)))"

text \<open>
  \<open>POST /auth/logout-all\<close>. \<open>Depends(get_current_user)\<close> runs first; without a bearer
  token the framework answers 401 before the endpoint. \<open>revoke_all_user_tokens\<close> has
  committed when the presented token is put on the blocklist.
\<close>

definition not_authenticated :: http_exception where
  "not_authenticated =
     HTTPException 401 Not_authenticated [(''WWW-Authenticate'', ''Bearer'')]"

definition logout_all_devices ::
  "request \<Rightarrow> datetime \<Rightarrow> session \<Rightarrow> (exn + nat) \<times> session" where
  "logout_all_devices req now s =
     (case oauth2_scheme req of
        None \<Rightarrow> (Inl (Http not_authenticated), db_close s)
      | Some token \<Rightarrow>
          (case get_current_user (cur s) now token of
             Inl e \<Rightarrow> (Inl (Http e), db_close s)
           | Inr current_user \<Rightarrow>
               (let s1 = snd (revoke_all_user_tokens s now (user_id current_user))
                in case (case bearer_token req of
                           None \<Rightarrow> Inr s1
                         | Some token' \<Rightarrow>
                             block_presented token' (\<lambda>p. Some (user_id current_user))
                               ''User logout all devices'' now s1) of
                     Inl err \<Rightarrow> (Inl err, db_close s1)
                   | Inr s2 \<Rightarrow> (Inr 204, db_close s2))))"

text \<open>\<open>cleanup_expired_tokens\<close> of \<open>app/celery_tasks/maintenance.py\<close>.\<close>

definition cleanup_expired_tokens :: "datetime \<Rightarrow> session \<Rightarrow> (nat \<times> nat) \<times> session" where
  "cleanup_expired_tokens now s =
     (let gone_b = filter (\<lambda>b. bl_expires_at b < now) (blocklist (cur s));
          audit_cutoff = now - 7 * 86400;
          gone_r = filter (\<lambda>t. rt_expires_at t < audit_cutoff \<and> rt_revoked t = True)
                     (refresh_tokens (cur s));
          s1 = s\<lparr>cur := (cur s)\<lparr>
                 blocklist := filter (\<lambda>b. \<not> bl_expires_at b < now) (blocklist (cur s)),
                 refresh_tokens :=
                   filter (\<lambda>t. \<not> (rt_expires_at t < audit_cutoff \<and> rt_revoked t = True))
                     (refresh_tokens (cur s))\<rparr>\<rparr>
      in ((length gone_b, length gone_r), db_close (db_commit s1)))"

section \<open>The counting store\<close>

text \<open>
  The Redis server as the client sees it: each key holds a number and, when it has a
  time to live, the instant it lapses. \<open>faults\<close> says, for each coming round trip,
  whether it raises (timeout, refused connection, server error); an empty list is a
  healthy store.
\<close>

record redis =
  kv :: "string \<rightharpoonup> (int \<times> datetime option)"
  faults :: "bool list"

datatype redis_error = RedisError

definition pop_fault :: "redis \<Rightarrow> bool \<times> redis" where
  "pop_fault r = (case faults r of [] \<Rightarrow> (False, r) | f # fs \<Rightarrow> (f, r\<lparr>faults := fs\<rparr>))"

definition live ::
  "(string \<rightharpoonup> (int \<times> datetime option)) \<Rightarrow> datetime \<Rightarrow> string \<Rightarrow> (int \<times> datetime option) option"
  where
  "live m now k =
     (case m k of
        None \<Rightarrow> None
      | Some (v, None) \<Rightarrow> Some (v, None)
      | Some (v, Some t) \<Rightarrow> if now < t then Some (v, Some t) else None)"

definition redis_get :: "redis \<Rightarrow> datetime \<Rightarrow> string \<Rightarrow> (redis_error + int option) \<times> redis" where
  "redis_get r now k =
     (case pop_fault r of
        (True, r') \<Rightarrow> (Inl RedisError, r')
      | (False, r') \<Rightarrow> (Inr (map_option fst (live (kv r') now k)), r'))"

text \<open>\<open>SETEX\<close> refuses a time to live that is not positive.\<close>

definition redis_setex ::
  "redis \<Rightarrow> datetime \<Rightarrow> string \<Rightarrow> int \<Rightarrow> int \<Rightarrow> (redis_error + unit) \<times> redis" where
  "redis_setex r now k seconds v =
     (case pop_fault r of
        (True, r') \<Rightarrow> (Inl RedisError, r')
      | (False, r') \<Rightarrow>
          if seconds \<le> 0 then (Inl RedisError, r')
          else (Inr (), r'\<lparr>kv := (kv r')(k \<mapsto> (v, Some (now + seconds)))\<rparr>))"

definition redis_delete :: "redis \<Rightarrow> datetime \<Rightarrow> string \<Rightarrow> (redis_error + unit) \<times> redis" where
  "redis_delete r now k =
     (case pop_fault r of
        (True, r') \<Rightarrow> (Inl RedisError, r')
      | (False, r') \<Rightarrow> (Inr (), r'\<lparr>kv := (kv r')(k := None)\<rparr>))"

text \<open>\<open>TTL\<close>: -2 for a key that does not exist, -1 for a key without a time to live.\<close>

definition redis_ttl :: "redis \<Rightarrow> datetime \<Rightarrow> string \<Rightarrow> (redis_error + int) \<times> redis" where
  "redis_ttl r now k =
     (case pop_fault r of
        (True, r') \<Rightarrow> (Inl RedisError, r')
      | (False, r') \<Rightarrow>
          (Inr (case live (kv r') now k of
                  None \<Rightarrow> - 2
                | Some (v, None) \<Rightarrow> - 1
                | Some (v, Some t) \<Rightarrow> t - now), r'))"

definition incr_kv ::
  "datetime \<Rightarrow> string \<Rightarrow> (string \<rightharpoonup> (int \<times> datetime option)) \<Rightarrow> (string \<rightharpoonup> (int \<times> datetime option))"
  where
  "incr_kv now k m =
     (case live m now k of
        None \<Rightarrow> m(k \<mapsto> (1, None))
      | Some (v, t) \<Rightarrow> m(k \<mapsto> (v + 1, t)))"

definition expire_kv ::
  "datetime \<Rightarrow> string \<Rightarrow> int \<Rightarrow> (string \<rightharpoonup> (int \<times> datetime option))
     \<Rightarrow> (string \<rightharpoonup> (int \<times> datetime option))" where
  "expire_kv now k seconds m =
     (case live m now k of
        None \<Rightarrow> m
      | Some (v, t) \<Rightarrow> m(k \<mapsto> (v, Some (now + seconds))))"

text \<open>\<open>pipe.execute()\<close>: the buffered commands run in one round trip.\<close>

definition redis_execute ::
  "redis \<Rightarrow> ((string \<rightharpoonup> (int \<times> datetime option)) \<Rightarrow> (string \<rightharpoonup> (int \<times> datetime option)))
     \<Rightarrow> (redis_error + unit) \<times> redis" where
  "redis_execute r cmds =
     (case pop_fault r of
        (True, r') \<Rightarrow> (Inl RedisError, r')
      | (False, r') \<Rightarrow> (Inr (), r'\<lparr>kv := cmds (kv r')\<rparr>))"

section \<open>Rate limiter and brute-force guard\<close>

text \<open>
  \<open>app/services/rate_limiter.py\<close>. The object holds the client, or \<open>None\<close> when rate
  limiting is off or the connection test of the constructor failed.
\<close>

record rate_limiter =
  redis_client :: "redis option"

definition rate_limiter_init :: "settings \<Rightarrow> redis \<Rightarrow> rate_limiter" where
  "rate_limiter_init cfg server =
     (if RATE_LIMIT_ENABLED cfg
      then (case pop_fault server of
              (True, r') \<Rightarrow> \<lparr>redis_client = None\<rparr>
            | (False, r') \<Rightarrow> \<lparr>redis_client = Some r'\<rparr>)
      else \<lparr>redis_client = None\<rparr>)"

definition get_key :: "string \<Rightarrow> string \<Rightarrow> string" where
  "get_key prefix identifier = ''rate_limit:'' @ prefix @ '':'' @ identifier"

datatype limit_message = Per_minute_exceeded int | Per_hour_exceeded int

definition or_default :: "int option \<Rightarrow> int \<Rightarrow> int" where
  "or_default v d = (case v of None \<Rightarrow> d | Some l \<Rightarrow> if l \<noteq> 0 then l else d)"

definition at_least :: "int option \<Rightarrow> int \<Rightarrow> bool" where
  "at_least count limit = (case count of None \<Rightarrow> False | Some c \<Rightarrow> c \<ge> limit)"

definition check_rate_limit ::
  "settings \<Rightarrow> rate_limiter \<Rightarrow> request \<Rightarrow> int option \<Rightarrow> int option \<Rightarrow> datetime
     \<Rightarrow> (bool \<times> limit_message option) \<times> rate_limiter" where
  "check_rate_limit cfg rl req lpm lph now =
     (if \<not> RATE_LIMIT_ENABLED cfg then ((True, None), rl)
      else case redis_client rl of
        None \<Rightarrow> ((True, None), rl)
      | Some r \<Rightarrow>
          (let client_ip = get_client_ip req;
               limit_per_minute = or_default lpm (RATE_LIMIT_PER_MINUTE cfg);
               limit_per_hour = or_default lph (RATE_LIMIT_PER_HOUR cfg);
               minute_key = get_key ''minute'' client_ip;
               hour_key = get_key ''hour'' client_ip
           in case redis_get r now minute_key of
                (Inl e, r1) \<Rightarrow> ((True, None), rl\<lparr>redis_client := Some r1\<rparr>)
              | (Inr minute_count, r1) \<Rightarrow>
                  if at_least minute_count limit_per_minute
                  then ((False, Some (Per_minute_exceeded limit_per_minute)),
                        rl\<lparr>redis_client := Some r1\<rparr>)
                  else (case redis_get r1 now hour_key of
                     (Inl e, r2) \<Rightarrow> ((True, None), rl\<lparr>redis_client := Some r2\<rparr>)
                   | (Inr hour_count, r2) \<Rightarrow>
                       if at_least hour_count limit_per_hour
                       then ((False, Some (Per_hour_exceeded limit_per_hour)),
                             rl\<lparr>redis_client := Some r2\<rparr>)
                       else (case redis_execute r2
                                    (expire_kv now hour_key 3600 \<circ> incr_kv now hour_key \<circ>
                                     expire_kv now minute_key 60 \<circ> incr_kv now minute_key) of
                          (Inl e, r3) \<Rightarrow> ((True, None), rl\<lparr>redis_client := Some r3\<rparr>)
                        | (Inr u, r3) \<Rightarrow> ((True, None), rl\<lparr>redis_client := Some r3\<rparr>)))))"

definition record_failed_login ::
  "settings \<Rightarrow> rate_limiter \<Rightarrow> datetime \<Rightarrow> string \<Rightarrow> (int \<times> bool) \<times> rate_limiter" where
  "record_failed_login cfg rl now identifier =
     (case redis_client rl of
        None \<Rightarrow> ((0, False), rl)
      | Some r \<Rightarrow>
          (let key = get_key ''brute_force'' identifier
           in case redis_get r now key of
                (Inl e, r1) \<Rightarrow> ((0, False), rl\<lparr>redis_client := Some r1\<rparr>)
              | (Inr attempts, r1) \<Rightarrow>
                  (let attempt_count = (case attempts of Some a \<Rightarrow> a | None \<Rightarrow> 0) + 1
                   in case redis_setex r1 now key (BRUTE_FORCE_LOCKOUT_MINUTES cfg * 60)
                             attempt_count of
                        (Inl e, r2) \<Rightarrow> ((0, False), rl\<lparr>redis_client := Some r2\<rparr>)
                      | (Inr u, r2) \<Rightarrow>
                          ((attempt_count, attempt_count \<ge> BRUTE_FORCE_MAX_ATTEMPTS cfg),
                           rl\<lparr>redis_client := Some r2\<rparr>))))"

definition reset_failed_logins :: "rate_limiter \<Rightarrow> datetime \<Rightarrow> string \<Rightarrow> rate_limiter" where
  "reset_failed_logins rl now identifier =
     (case redis_client rl of
        None \<Rightarrow> rl
      | Some r \<Rightarrow>
          (case redis_delete r now (get_key ''brute_force'' identifier) of
             (Inl e, r1) \<Rightarrow> rl\<lparr>redis_client := Some r1\<rparr>
           | (Inr u, r1) \<Rightarrow> rl\<lparr>redis_client := Some r1\<rparr>))"

definition get_remaining_attempts ::
  "settings \<Rightarrow> rate_limiter \<Rightarrow> datetime \<Rightarrow> string \<Rightarrow> int \<times> rate_limiter" where
  "get_remaining_attempts cfg rl now identifier =
     (case redis_client rl of
        None \<Rightarrow> (BRUTE_FORCE_MAX_ATTEMPTS cfg, rl)
      | Some r \<Rightarrow>
          (case redis_get r now (get_key ''brute_force'' identifier) of
             (Inl e, r1) \<Rightarrow> (BRUTE_FORCE_MAX_ATTEMPTS cfg, rl\<lparr>redis_client := Some r1\<rparr>)
           | (Inr attempts, r1) \<Rightarrow>
               (let attempt_count = (case attempts of Some a \<Rightarrow> a | None \<Rightarrow> 0)
                in (max 0 (BRUTE_FORCE_MAX_ATTEMPTS cfg - attempt_count),
                    rl\<lparr>redis_client := Some r1\<rparr>))))"

definition get_lockout_ttl ::
  "rate_limiter \<Rightarrow> datetime \<Rightarrow> string \<Rightarrow> int option \<times> rate_limiter" where
  "get_lockout_ttl rl now identifier =
     (case redis_client rl of
        None \<Rightarrow> (None, rl)
      | Some r \<Rightarrow>
          (case redis_ttl r now (get_key ''brute_force'' identifier) of
             (Inl e, r1) \<Rightarrow> (None, rl\<lparr>redis_client := Some r1\<rparr>)
           | (Inr ttl, r1) \<Rightarrow>
               ((if ttl > 0 then Some ttl else None), rl\<lparr>redis_client := Some r1\<rparr>)))"

section \<open>Login\<close>

record login_form =
  username :: string
  password :: string

text \<open>
  The body of \<open>POST /auth/login\<close>. \<open>verify_password\<close> is the password hash check of
  the library, taken as a parameter. The endpoint as it is served, under its
  \<open>limiter.limit\<close> decorator, is \<open>login_route\<close> below.
\<close>

definition wrong_credentials ::
  "settings \<Rightarrow> rate_limiter \<Rightarrow> datetime \<Rightarrow> string \<Rightarrow> session
     \<Rightarrow> (exn + token_response) \<times> rate_limiter \<times> session" where
  "wrong_credentials cfg rl now identifier s =
     (let left = get_remaining_attempts cfg rl now identifier
      in (Inl (Http (HTTPException 401 (Wrong_email_or_password (fst left)) [])),
          snd left, db_close s))"

definition login ::
  "settings \<Rightarrow> (string \<Rightarrow> string \<Rightarrow> bool) \<Rightarrow> rate_limiter \<Rightarrow> request \<Rightarrow> login_form
     \<Rightarrow> datetime \<Rightarrow> string \<Rightarrow> string \<Rightarrow> session
     \<Rightarrow> (exn + token_response) \<times> rate_limiter \<times> session" where
  "login cfg verify_password rl req form_data now uuid_a uuid_r s =
     (let client_ip = get_client_ip req;
          identifier = client_ip @ '':'' @ username form_data;
          recorded = record_failed_login cfg rl now identifier;
          is_locked_out = snd (fst recorded);
          rl1 = snd recorded
      in if is_locked_out
         then (let looked = get_lockout_ttl rl1 now identifier;
                   minutes = (case fst looked of
                                None \<Rightarrow> BRUTE_FORCE_LOCKOUT_MINUTES cfg
                              | Some ttl \<Rightarrow> ttl div 60 + 1)
               in (Inl (Http (HTTPException 429
                                (Account_locked (BRUTE_FORCE_MAX_ATTEMPTS cfg) minutes) [])),
                   snd looked, db_close s))
         else (case find (\<lambda>u. email u = username form_data) (users (cur s)) of
            None \<Rightarrow> wrong_credentials cfg rl1 now identifier s
          | Some usr \<Rightarrow>
              if \<not> verify_password (password form_data) (hashed_password usr)
              then wrong_credentials cfg rl1 now identifier s
              else (let rl2 = reset_failed_logins rl1 now identifier;
                        agent = agent_of req;
                        acc = create_access_token cfg (subject_only (email usr)) None now
                                uuid_a
                    in case create_refresh_token cfg s usr (Some agent) (Some client_ip)
                              now uuid_r of
                         Inl e \<Rightarrow> (Inl e, rl2, db_close s)
                       | Inr (new_token, _, s1) \<Rightarrow>
                           (Inr \<lparr>access_token = acc, refresh_token = new_token,
                                 token_type = ''bearer'',
                                 expires_in = ACCESS_TOKEN_EXPIRE_MINUTES cfg * 60\<rparr>,
                            rl2, db_close s1))))"

section \<open>The rate-limit decorator of the login endpoint\<close>

text \<open>
  \<open>app/core/limiter.py\<close> builds a \<open>Limiter\<close> of the slowapi library and \<open>login\<close> is
  decorated with \<open>limiter.limit("10/minute;50/hour")\<close>. The library is not part of the
  repository; its part is modelled from the behaviour of slowapi and of the limits
  library under it, for the arguments this code passes.

  The limiter has no default limits (\<open>default_limits=[]\<close>): the limits of a request
  are those of the decorator on its endpoint.

  \<open>limiter_get_client_ip\<close> is \<open>get_client_ip\<close> of \<open>app/core/limiter.py\<close>, the key
  function; its last case is \<open>get_remote_address\<close> of the library, which answers
  \<open>127.0.0.1\<close> for a request without a client address.
\<close>

definition limiter_get_client_ip :: "request \<Rightarrow> string" where
  "limiter_get_client_ip req =
     (if truthy (x_forwarded_for req)
      then strip (takeWhile (\<lambda>c. c \<noteq> CHR '','')
                    (case x_forwarded_for req of Some v \<Rightarrow> v | None \<Rightarrow> []))
      else if truthy (x_real_ip req)
      then strip (case x_real_ip req of Some v \<Rightarrow> v | None \<Rightarrow> [])
      else if truthy (client_host req)
      then (case client_host req of Some h \<Rightarrow> h | None \<Rightarrow> [])
      else ''127.0.0.1'')"

text \<open>
  The limiter holds its own connection to the Redis server of \<open>settings.REDIS_URL\<close>
  (its keys start with \<open>LIMITER\<close>, those of \<open>RateLimiter\<close> with \<open>rate_limit:\<close>). At
  import the module pings the server; when the ping raises, the \<open>Limiter\<close> is built
  without \<open>storage_uri\<close>, on a store in memory that never raises.
\<close>

record limiter =
  storage :: redis

definition limiter_init :: "redis \<Rightarrow> limiter" where
  "limiter_init server =
     (case pop_fault server of
        (True, r') \<Rightarrow> \<lparr>storage = \<lparr>kv = Map.empty, faults = []\<rparr>\<rparr>
      | (False, r') \<Rightarrow> \<lparr>storage = r'\<rparr>)"

text \<open>
  The two limits of \<open>"10/minute;50/hour"\<close>, and the key of a limit for a client and an
  endpoint. \<open>redis_incr\<close> is the storage's \<open>incr\<close>: one round trip that increments the
  counter and sets its time to live when the counter is new.
\<close>

definition login_limits :: "rate_limit_item list" where
  "login_limits =
     [\<lparr>amount = 10, expiry = 60, item_text = ''10/1/minute''\<rparr>,
      \<lparr>amount = 50, expiry = 3600, item_text = ''50/1/hour''\<rparr>]"

definition limit_key :: "string \<Rightarrow> string \<Rightarrow> rate_limit_item \<Rightarrow> string" where
  "limit_key client scope item = ''LIMITER/'' @ client @ ''/'' @ scope @ ''/'' @ item_text item"

definition redis_incr ::
  "redis \<Rightarrow> datetime \<Rightarrow> string \<Rightarrow> int \<Rightarrow> (redis_error + int) \<times> redis" where
  "redis_incr r now k seconds =
     (case pop_fault r of
        (True, r') \<Rightarrow> (Inl RedisError, r')
      | (False, r') \<Rightarrow>
          (let m = incr_kv now k (kv r');
               current = (case m k of None \<Rightarrow> 0 | Some (v, t) \<Rightarrow> v);
               m' = (if current = 1 then expire_kv now k seconds m else m)
           in (Inr current, r'\<lparr>kv := m'\<rparr>)))"

text \<open>
  The loop over the limits of the route in the limiter's request check: each limit is
  hit in turn, the first one exceeded ends the loop with \<open>RateLimitExceeded\<close> (answered
  429 by the handler that \<open>main.py\<close> registers; the handler is not followed further). \<open>hdr\<close> is the limit kept for the
  response headers, the one with the shortest window so far. The limiter is built
  without \<open>swallow_errors\<close> and without an in-memory fallback, so an exception of the
  storage leaves the check as it is, and the request ends with it (status 500).
\<close>

fun evaluate_limits ::
  "limiter \<Rightarrow> datetime \<Rightarrow> string \<Rightarrow> string \<Rightarrow> rate_limit_item list \<Rightarrow> rate_limit_item option
     \<Rightarrow> (exn + rate_limit_item option) \<times> limiter" where
  "evaluate_limits lim now client scope [] hdr = (Inr hdr, lim)"
| "evaluate_limits lim now client scope (item # rest) hdr =
     (let hdr' = (case hdr of
                    None \<Rightarrow> Some item
                  | Some h \<Rightarrow> if expiry item < expiry h then Some item else Some h)
      in case redis_incr (storage lim) now (limit_key client scope item) (expiry item) of
           (Inl e, r') \<Rightarrow> (Inl StorageError, lim\<lparr>storage := r'\<rparr>)
         | (Inr current, r') \<Rightarrow>
             if current \<le> amount item
             then evaluate_limits (lim\<lparr>storage := r'\<rparr>) now client scope rest hdr'
             else (Inl (RateLimitExceeded item), lim\<lparr>storage := r'\<rparr>))"

text \<open>A limit whose key function answers the empty text is skipped.\<close>

definition check_request_limit ::
  "limiter \<Rightarrow> request \<Rightarrow> datetime \<Rightarrow> string \<Rightarrow> rate_limit_item list
     \<Rightarrow> (exn + rate_limit_item option) \<times> limiter" where
  "check_request_limit lim req now scope items =
     (let client = limiter_get_client_ip req
      in if client = [] then (Inr None, lim)
         else evaluate_limits lim now client scope items None)"

text \<open>
  \<open>POST /auth/login\<close> as served: the check of the decorator, then the body. An
  exception of the body passes through the decorator. When the body returns, the
  decorator writes the rate-limit headers (\<open>headers_enabled=True\<close>) into the response
  object of the endpoint; \<open>login\<close> returns a \<open>Token\<close> and declares no \<open>response\<close>
  parameter, and for such an endpoint the library raises instead, unless no limit was
  kept for the headers.
\<close>

definition login_route ::
  "settings \<Rightarrow> (string \<Rightarrow> string \<Rightarrow> bool) \<Rightarrow> limiter \<Rightarrow> rate_limiter \<Rightarrow> request
     \<Rightarrow> login_form \<Rightarrow> datetime \<Rightarrow> string \<Rightarrow> string \<Rightarrow> session
     \<Rightarrow> ((exn + token_response) \<times> rate_limiter \<times> session) \<times> limiter" where
  "login_route cfg verify_password lim rl req form_data now uuid_a uuid_r s =
     (case check_request_limit lim req now ''app.api.auth.login'' login_limits of
        (Inl err, lim1) \<Rightarrow> ((Inl err, rl, db_close s), lim1)
      | (Inr hdr, lim1) \<Rightarrow>
          (case login cfg verify_password rl req form_data now uuid_a uuid_r s of
             (Inl e, rl1, s1) \<Rightarrow> ((Inl e, rl1, s1), lim1)
           | (Inr tokens, rl1, s1) \<Rightarrow>
               (case hdr of
                  None \<Rightarrow> ((Inr tokens, rl1, s1), lim1)
                | Some item \<Rightarrow> ((Inl ResponseMissing, rl1, s1), lim1))))"

section \<open>The sub-checks of the validator, and two orders of them\<close>

text \<open>
  \<open>fails b db now t\<close>: the condition of the \<open>raise\<close> statement \<open>b\<close> holds of the token,
  read off the token and the tables alone, whatever the other checks say.
\<close>

fun fails :: "branch \<Rightarrow> tables \<Rightarrow> datetime \<Rightarrow> jwt \<Rightarrow> bool" where
  "fails Malformed db now t = (\<not> signature_ok t)"
| "fails Not_yet_valid db now t = (case c_nbf (payload t) of None \<Rightarrow> False | Some n \<Rightarrow> now < n)"
| "fails Bad_claims db now t = (c_aud (payload t) \<noteq> None \<or> c_at_hash (payload t) \<noteq> None)"
| "fails Expired db now t = (case c_exp (payload t) of None \<Rightarrow> False | Some e \<Rightarrow> e < now)"
| "fails Wrong_type db now t = (c_type (payload t) \<noteq> Some ''access'')"
| "fails No_subject db now t = (c_sub (payload t) = None)"
| "fails Revoked db now t =
     (case c_jti (payload t) of
        None \<Rightarrow> False
      | Some j \<Rightarrow> j \<noteq> [] \<and> check_token_blocklist db now j)"
| "fails Unknown_subject db now t =
     (case c_sub (payload t) of
        None \<Rightarrow> True
      | Some e \<Rightarrow> get_user_by_email db e = None)"
| "fails Inactive_subject db now t =
     (case c_sub (payload t) of
        None \<Rightarrow> False
      | Some e \<Rightarrow> (case get_user_by_email db e of None \<Rightarrow> False | Some u \<Rightarrow> \<not> is_active u))"

definition earliest_failing ::
  "branch list \<Rightarrow> tables \<Rightarrow> datetime \<Rightarrow> jwt \<Rightarrow> branch option" where
  "earliest_failing order db now t = find (\<lambda>b. fails b db now t) order"

text \<open>
  The order the specification gives for the validator: signature, type, expiry,
  registry, subject (unknown, then inactive).
\<close>

definition spec_order :: "branch list" where
  "spec_order = [Malformed, Wrong_type, Expired, Revoked, Unknown_subject, Inactive_subject]"

text \<open>The order of the statements of \<open>get_current_user\<close>.\<close>

definition code_order :: "branch list" where
  "code_order =
     [Malformed, Not_yet_valid, Expired, Bad_claims, Wrong_type, No_subject, Revoked,
      Unknown_subject, Inactive_subject]"

section \<open>Sessions: what holds of the rows before and after a commit\<close>

definition both :: "(refresh_token list \<Rightarrow> bool) \<Rightarrow> session \<Rightarrow> bool" where
  "both Q s = (Q (refresh_tokens (cur s)) \<and> Q (refresh_tokens (durable s)))"

section \<open>Sample data\<close>

definition alice :: user where
  "alice = \<lparr>user_id = 1, email = ''a@b.com'', hashed_password = ''h1'', is_active = True\<rparr>"

definition bob :: user where
  "bob = \<lparr>user_id = 2, email = ''bob@b.com'', hashed_password = ''h2'', is_active = False\<rparr>"

definition db1 :: tables where
  "db1 = \<lparr>users = [alice, bob], refresh_tokens = [],
          blocklist = [\<lparr>bl_jti = ''j1'', bl_token_type = ''access'', bl_user_id = Some 1,
                        bl_expires_at = 1000, bl_revoked_at = 50, bl_reason = None\<rparr>]\<rparr>"

definition mk_token ::
  "bool \<Rightarrow> string option \<Rightarrow> string option \<Rightarrow> string option \<Rightarrow> int option \<Rightarrow> jwt" where
  "mk_token ok s j ty e =
     \<lparr>signature_ok = ok,
      payload = \<lparr>c_sub = s, c_jti = j, c_type = ty, c_exp = e,
                 c_nbf = None, c_aud = None, c_at_hash = None\<rparr>\<rparr>"

definition T_aud :: jwt where
  "T_aud = \<lparr>signature_ok = True,
            payload = \<lparr>c_sub = Some ''a@b.com'', c_jti = None, c_type = Some ''access'',
                       c_exp = Some 500, c_nbf = None, c_aud = Some [''home-app''],
                       c_at_hash = None\<rparr>\<rparr>"

section \<open>The subsystem as a transition system on the committed tables\<close>

text \<open>
  One step is one request or task, run in a session of its own on the committed tables
  \<open>T\<close>, the result being what is committed when the session closes. \<open>U\<close> is the set
  of values \<open>uuid4\<close> may draw for a new refresh token. \<open>step_validate\<close> stands for the
  two validators, which write nothing; \<open>step_users\<close> for the changes the rest of the
  application makes to the user table (registration, deactivation); \<open>step_issue\<close> for
  the refresh token that registration issues; \<open>step_revoke_all\<close> for the call of
  account deletion.
\<close>

definition empty_tables :: tables where
  "empty_tables = \<lparr>users = [], refresh_tokens = [], blocklist = []\<rparr>"

inductive step :: "string set \<Rightarrow> tables \<Rightarrow> tables \<Rightarrow> bool" for U :: "string set" where
  step_validate: "step U T T"
| step_users: "step U T (T\<lparr>users := us\<rparr>)"
| step_issue:
    "uuid_r \<in> U \<Longrightarrow> create_refresh_token cfg (open_session T) usr d ip now uuid_r = Inr (tk, row, s')
     \<Longrightarrow> step U T (durable s')"
| step_login:
    "uuid_r \<in> U \<Longrightarrow>
     step U T (durable (snd (snd (login cfg vp rl req form now uuid_a uuid_r (open_session T)))))"
| step_refresh:
    "uuid_r \<in> U \<Longrightarrow>
     step U T (durable (snd (refresh_tokens_endpoint cfg req body now uuid_a uuid_r (open_session T))))"
| step_logout: "step U T (durable (snd (logout req body now (open_session T))))"
| step_logout_all: "step U T (durable (snd (logout_all_devices req now (open_session T))))"
| step_revoke_all: "step U T (durable (snd (revoke_all_user_tokens (open_session T) now uid)))"
| step_cleanup: "step U T (durable (snd (cleanup_expired_tokens now (open_session T))))"

inductive reachable :: "string set \<Rightarrow> tables \<Rightarrow> tables \<Rightarrow> bool" for U :: "string set" where
  reach_refl: "reachable U T T"
| reach_step: "reachable U T T' \<Longrightarrow> step U T' T'' \<Longrightarrow> reachable U T T''"

section \<open>Table constraints and what a step may not undo\<close>

text \<open>
  \<open>rt_inv\<close>: the UNIQUE constraint on \<open>jti\<close>, and every revoked row has its
  \<open>revoked_at\<close>. \<open>never_unrevoked old new\<close>: a row revoked in \<open>old\<close> is revoked in
  \<open>new\<close>, if it is still there.
\<close>

definition rt_inv :: "refresh_token list \<Rightarrow> bool" where
  "rt_inv rts =
     (distinct (map rt_jti rts) \<and>
      list_all (\<lambda>t. rt_revoked t \<longrightarrow> rt_revoked_at t \<noteq> None) rts)"

definition never_unrevoked :: "refresh_token list \<Rightarrow> refresh_token list \<Rightarrow> bool" where
  "never_unrevoked old new =
     list_all (\<lambda>t. rt_revoked t \<longrightarrow>
                 list_all (\<lambda>t'. rt_jti t' = rt_jti t \<longrightarrow> rt_revoked t') new) old"

definition keeps :: "refresh_token list \<Rightarrow> refresh_token list \<Rightarrow> bool" where
  "keeps old new = (set (map rt_jti old) \<subseteq> set (map rt_jti new) \<and> never_unrevoked old new)"

definition r1 :: refresh_token where
  "r1 = \<lparr>rt_user_id = 1, rt_jti = ''r1'', rt_expires_at = 5000, rt_created_at = 10,
         rt_revoked = False, rt_revoked_at = None, rt_device_info = None,
         rt_ip_address = None\<rparr>"

definition db2 :: tables where
  "db2 = \<lparr>users = [alice, bob], refresh_tokens = [r1], blocklist = []\<rparr>"

section \<open>Rotation: notions and sample request\<close>

text \<open>
  \<open>dead j rts\<close>: no row of \<open>rts\<close> with unique-id \<open>j\<close> is unrevoked.
  \<open>exp_passed token now\<close>: the \<open>exp\<close> claim of the token lies before \<open>now\<close>, the
  condition on which \<open>jwt.decode\<close> raises \<open>ExpiredSignatureError\<close>.
\<close>

definition dead :: "string \<Rightarrow> refresh_token list \<Rightarrow> bool" where
  "dead j rts = list_all (\<lambda>t. rt_jti t = j \<longrightarrow> rt_revoked t) rts"

definition exp_passed :: "jwt \<Rightarrow> datetime \<Rightarrow> bool" where
  "exp_passed token now = (case c_exp (payload token) of None \<Rightarrow> False | Some e \<Rightarrow> e < now)"

definition req0 :: request where
  "req0 = \<lparr>x_forwarded_for = None, x_real_ip = None, client_host = Some ''1.2.3.4'',
           user_agent = None, authorization = None\<rparr>"

definition R1 :: jwt where
  "R1 = mk_token True (Some ''a@b.com'') (Some ''r1'') (Some ''refresh'') (Some 5000)"

section \<open>Logout: its two halves, and sample requests\<close>



text \<open>
  \<open>started token now\<close>: the token is not presented before its \<open>nbf\<close>.
  \<open>exp_convertible token\<close>: \<open>utcfromtimestamp\<close> converts the \<open>exp\<close> of the token.
  \<open>blockable token\<close>: the token passes \<open>jwt.decode\<close> without the expiry check once it has
  started, and carries a \<open>jti\<close> and an \<open>exp\<close> that are true in Python's sense.
\<close>

definition started :: "jwt \<Rightarrow> datetime \<Rightarrow> bool" where
  "started token now = (case c_nbf (payload token) of None \<Rightarrow> True | Some n \<Rightarrow> n \<le> now)"



definition after_logout :: "request \<Rightarrow> jwt option \<Rightarrow> datetime \<Rightarrow> tables \<Rightarrow> tables" where
  "after_logout req body now T = durable (snd (logout req body now (open_session T)))"





definition A1 :: jwt where
  "A1 = mk_token True (Some ''a@b.com'') (Some ''a1'') (Some ''access'') (Some 1000)"


definition A2 :: jwt where
  "A2 = mk_token True (Some ''a@b.com'') (Some ''a2'') (Some ''access'') (Some 253402300800)"

definition req_far :: request where
  "req_far = req0\<lparr>authorization := Some (''Bearer'', A2)\<rparr>"

definition R_nbf :: jwt where
  "R_nbf = R1\<lparr>payload := (payload R1)\<lparr>c_nbf := Some 150\<rparr>\<rparr>"

definition req_lower :: request where
  "req_lower = req0\<lparr>authorization := Some (''bearer'', A1)\<rparr>"

section \<open>Counting-store failures seen from outside\<close>

text \<open>
  \<open>round_trips rl rl'\<close>: how the round trips made between two states of the limiter
  went (\<open>True\<close> for one that raised). \<open>store_down rl rl'\<close>: there was no client, or one
  of those round trips raised.
\<close>

definition round_trips :: "rate_limiter \<Rightarrow> rate_limiter \<Rightarrow> bool list" where
  "round_trips rl rl' =
     (case (redis_client rl, redis_client rl') of
        (Some r, Some r') \<Rightarrow> take (length (faults r) - length (faults r')) (faults r)
      | _ \<Rightarrow> [])"

definition store_raised :: "rate_limiter \<Rightarrow> rate_limiter \<Rightarrow> bool" where
  "store_raised rl rl' = (True \<in> set (round_trips rl rl'))"

definition store_down :: "rate_limiter \<Rightarrow> rate_limiter \<Rightarrow> bool" where
  "store_down rl rl' = (redis_client rl = None \<or> store_raised rl rl')"

definition rl_down :: rate_limiter where
  "rl_down = \<lparr>redis_client =
      Some \<lparr>kv = [''rate_limit:brute_force:1.2.3.4:a@b.com'' \<mapsto> (7, Some 1000),
                  ''rate_limit:minute:1.2.3.4'' \<mapsto> (500, Some 1000)],
            faults = [True, True, True]\<rparr>\<rparr>"

text \<open>
  \<open>server_failing\<close>: the Redis server as the limiter's connection sees it when it
  answers the ping at import and is unreachable afterwards; \<open>lim_down\<close> is the limiter
  built on it, \<open>lim_up\<close> a limiter on a healthy, empty store. \<open>rl_reset_fails\<close>: a healthy store with the sample counter at 3 in which
  the third round trip, the \<open>DELETE\<close> of the reset, raises.
\<close>

definition server_failing :: redis where
  "server_failing = \<lparr>kv = Map.empty, faults = [False, True, True, True]\<rparr>"

definition lim_down :: limiter where
  "lim_down = \<lparr>storage = \<lparr>kv = Map.empty, faults = [True, True, True]\<rparr>\<rparr>"

definition lim_up :: limiter where
  "lim_up = \<lparr>storage = \<lparr>kv = Map.empty, faults = []\<rparr>\<rparr>"

definition form_wrong :: login_form where
  "form_wrong = \<lparr>username = ''a@b.com'', password = ''wrong''\<rparr>"

definition rl_reset_fails :: rate_limiter where
  "rl_reset_fails = \<lparr>redis_client =
      Some \<lparr>kv = [''rate_limit:brute_force:1.2.3.4:a@b.com'' \<mapsto> (3, Some 1000)],
            faults = [False, False, True]\<rparr>\<rparr>"

definition form_ok :: login_form where
  "form_ok = \<lparr>username = ''a@b.com'', password = ''secret''\<rparr>"

definition vp0 :: "string \<Rightarrow> string \<Rightarrow> bool" where
  "vp0 plain hashed = (plain = ''secret'' \<and> hashed = ''h1'')"

section \<open>Consecutive login attempts\<close>

text \<open>
  \<open>attempts\<close>: the answers to consecutive login requests of one client for one
  username, each request with its password and the two values \<open>uuid4\<close> would draw,
  each in a session of its own, the limiter and the tables handed on. \<open>rl_up\<close> is a
  limiter with a healthy, empty store; \<open>counted n\<close> one whose counter for the sample
  client and username stands at \<open>n\<close>.
\<close>

fun attempts ::
  "settings \<Rightarrow> (string \<Rightarrow> string \<Rightarrow> bool) \<Rightarrow> request \<Rightarrow> string \<Rightarrow> datetime
     \<Rightarrow> (string \<times> string \<times> string) list \<Rightarrow> rate_limiter \<Rightarrow> tables
     \<Rightarrow> (exn + token_response) list" where
  "attempts cfg vp req user now [] rl T = []"
| "attempts cfg vp req user now ((pw, uuid_a, uuid_r) # rest) rl T =
     (case login cfg vp rl req \<lparr>username = user, password = pw\<rparr> now uuid_a uuid_r
             (open_session T) of
        (res, rl', s') \<Rightarrow> res # attempts cfg vp req user now rest rl' (durable s'))"

definition rl_up :: rate_limiter where
  "rl_up = \<lparr>redis_client = Some \<lparr>kv = Map.empty, faults = []\<rparr>\<rparr>"

definition bf_key :: string where
  "bf_key = ''rate_limit:brute_force:1.2.3.4:a@b.com''"

definition counted :: "int \<Rightarrow> rate_limiter" where
  "counted n = \<lparr>redis_client = Some \<lparr>kv = [bf_key \<mapsto> (n, Some 1000)], faults = []\<rparr>\<rparr>"

section \<open>Sessions and steps keep what the row operations keep\<close>

lemma both_open: "Q (refresh_tokens T) \<Longrightarrow> both Q (open_session T)"
  by (simp add: both_def open_session_def)

lemma both_commit: "both Q s \<Longrightarrow> both Q (db_commit s)"
  by (simp add: both_def db_commit_def)

lemma both_close: "both Q s \<Longrightarrow> both Q (db_close s)"
  by (simp add: both_def db_close_def)

lemma both_durable: "both Q s \<Longrightarrow> Q (refresh_tokens (durable s))"
  by (simp add: both_def)

lemma both_block: "both Q s \<Longrightarrow> both Q (snd (block_token ty s j e u r n))"
  by (auto simp: both_def block_token_def db_commit_def Let_def split: option.splits)

lemma block_presented_cases:
  "block_presented t f r n s = Inl ValueError \<or> block_presented t f r n s = Inr s
   \<or> (\<exists>j e. block_presented t f r n s =
                Inr (snd (block_token ''access'' s j e (f (payload t)) (Some r) n)))"
  by (auto simp: block_presented_def block_access_token_def utcfromtimestamp_def
      jwt_decode_def split: sum.splits option.splits if_splits)

lemma both_block_presented:
  "both Q s \<Longrightarrow> block_presented t f r n s = Inr s' \<Longrightarrow> both Q s'"
  using block_presented_cases[of t f r n s] by (auto simp: both_block)

lemma both_revoke_row:
  assumes "both Q s"
    and "\<And>rts. Q rts \<Longrightarrow> Q (map (\<lambda>t. if rt_jti t = j then revoke t now else t) rts)"
    and "rt_jti tok = j"
  shows "both Q (revoke_row tok now s)"
  using assms by (simp add: both_def revoke_row_def)

lemma both_create:
  assumes "both Q s"
    and "create_refresh_token cfg s usr d ip now uuid = Inr (tk, row, s')"
    and "\<And>rts t. Q rts \<Longrightarrow> rt_jti t = uuid \<Longrightarrow> rt_jti t \<notin> rt_jti ` set rts \<Longrightarrow> \<not> rt_revoked t \<Longrightarrow> Q (rts @ [t])"
  shows "both Q s'"
  using assms
  by (auto simp: both_def create_refresh_token_def Let_def db_commit_def split: if_splits)

lemma fold_block_both:
  "both Q s \<Longrightarrow> both Q (fold (\<lambda>tok s'. snd (block_refresh_token s' (f tok) (g tok) u r n)) toks s)"
  by (induction toks arbitrary: s) (simp_all add: block_refresh_token_def both_block)

lemma both_revoke_all:
  assumes "both Q s"
    and "\<And>rts. Q rts \<Longrightarrow> Q (map (\<lambda>t. if rt_user_id t = uid \<and> rt_revoked t = False
                          then t\<lparr>rt_revoked := True, rt_revoked_at := Some now\<rparr> else t) rts)"
  shows "both Q (snd (revoke_all_user_tokens s now uid))"
proof -
  let ?s1 = "s\<lparr>cur := (cur s)\<lparr>refresh_tokens :=
                 map (\<lambda>t. if rt_user_id t = uid \<and> rt_revoked t = False
                          then t\<lparr>rt_revoked := True, rt_revoked_at := Some now\<rparr> else t)
                     (refresh_tokens (cur s))\<rparr>\<rparr>"
  have "both Q ?s1" using assms by (simp add: both_def)
  then show ?thesis
    by (simp add: revoke_all_user_tokens_def Let_def both_commit fold_block_both)
qed

lemma logout_both:
  assumes "Q (refresh_tokens T)"
    and "\<And>j rts. Q rts \<Longrightarrow> Q (map (\<lambda>t. if rt_jti t = j then revoke t now else t) rts)"
  shows "both Q (snd (logout req body now (open_session T)))"
proof -
  have 0: "both Q (open_session T)" using assms(1) by (rule both_open)
  define a where "a = (case bearer_token req of None \<Rightarrow> Inr (open_session T)
      | Some token \<Rightarrow> block_presented token (logout_user_id (cur (open_session T)))
                        ''User logout'' now (open_session T))"
  show ?thesis
  proof (cases a)
    case (Inl err)
    then show ?thesis
      unfolding logout_def a_def[symmetric] using 0 by (simp add: both_close)
  next
    case (Inr s1)
    then have 1: "both Q s1"
      using 0 by (auto simp: a_def split: option.splits intro: both_block_presented)
    have 2: "both Q (db_commit (snd (block_refresh_token (revoke_row tok now s1) (rt_jti tok) a b c d)))"
      for tok a b c d
      using 1 assms(2) by (simp add: both_commit block_refresh_token_def both_block both_revoke_row)
    show ?thesis
      unfolding logout_def Let_def a_def[symmetric] Inr
      using 1 2 by (auto simp: both_close split: option.splits sum.splits prod.splits)
  qed
qed

lemma refresh_both:
  assumes "Q (refresh_tokens T)"
    and "\<And>j rts. Q rts \<Longrightarrow> Q (map (\<lambda>t. if rt_jti t = j then revoke t now else t) rts)"
    and "\<And>rts t. Q rts \<Longrightarrow> rt_jti t = uuid_r \<Longrightarrow> rt_jti t \<notin> rt_jti ` set rts \<Longrightarrow> \<not> rt_revoked t \<Longrightarrow> Q (rts @ [t])"
  shows "both Q (snd (refresh_tokens_endpoint cfg req body now uuid_a uuid_r (open_session T)))"
proof -
  have 0: "both Q (open_session T)" using assms(1) by (rule both_open)
  have 1: "both Q (snd (block_refresh_token (revoke_row tok now (open_session T)) (rt_jti tok) a b c d))" for tok a b c d
    using 0 assms(2) by (simp add: block_refresh_token_def both_block both_revoke_row)
  show ?thesis
  proof (cases "verify_refresh_token (cur (open_session T)) now body")
    case (Inl e)
    then show ?thesis using 0 by (simp add: refresh_tokens_endpoint_def both_close)
  next
    case (Inr p)
    obtain usr old where p: "p = (usr, old)" by (cases p)
    let ?s2 = "snd (block_refresh_token (revoke_row old now (open_session T)) (rt_jti old)
                 (rt_expires_at old) (Some (user_id usr)) (Some ''Token rotation'') now)"
    have s2: "both Q ?s2" by (rule 1)
    show ?thesis
    proof (cases "create_refresh_token cfg ?s2 usr (Some (agent_of req)) (Some (get_client_ip req)) now uuid_r")
      case (Inl e)
      then show ?thesis using Inr p s2
        by (simp add: refresh_tokens_endpoint_def Let_def both_close)
    next
      case (Inr q)
      obtain tk row s3 where q: "q = (tk, row, s3)" by (cases q)
      have "both Q s3" using s2 Inr[unfolded q] assms(3) by (rule both_create)
      then show ?thesis using Inr q \<open>verify_refresh_token (cur (open_session T)) now body = Inr p\<close> p
        by (simp add: refresh_tokens_endpoint_def Let_def both_close)
    qed
  qed
qed


lemma login_session_cases:
  "snd (snd (login cfg vp rl req form now uuid_a uuid_r s)) = db_close s \<or>
   (\<exists>usr a b tk row s1. create_refresh_token cfg s usr a b now uuid_r = Inr (tk, row, s1) \<and>
      snd (snd (login cfg vp rl req form now uuid_a uuid_r s)) = db_close s1)"
  apply (auto simp: login_def Let_def wrong_credentials_def split: option.splits sum.splits prod.splits)
  apply blast
  done

lemma login_both:
  assumes "Q (refresh_tokens T)"
    and "\<And>rts t. Q rts \<Longrightarrow> rt_jti t = uuid_r \<Longrightarrow> rt_jti t \<notin> rt_jti ` set rts \<Longrightarrow> \<not> rt_revoked t \<Longrightarrow> Q (rts @ [t])"
  shows "both Q (snd (snd (login cfg vp rl req form now uuid_a uuid_r (open_session T))))"
proof -
  have 0: "both Q (open_session T)" using assms(1) by (rule both_open)
  from login_session_cases[of cfg vp rl req form now uuid_a uuid_r "open_session T"]
  show ?thesis
  proof (elim disjE exE conjE)
    assume "snd (snd (login cfg vp rl req form now uuid_a uuid_r (open_session T))) = db_close (open_session T)"
    then show ?thesis using 0 by (simp add: both_close)
  next
    fix usr a b tk row s1
    assume c: "create_refresh_token cfg (open_session T) usr a b now uuid_r = Inr (tk, row, s1)"
      and e: "snd (snd (login cfg vp rl req form now uuid_a uuid_r (open_session T))) = db_close s1"
    have "both Q s1" using 0 c assms(2) by (rule both_create)
    then show ?thesis using e by (simp add: both_close)
  qed
qed

lemma logout_all_both:
  assumes "Q (refresh_tokens T)"
    and "\<And>uid rts. Q rts \<Longrightarrow> Q (map (\<lambda>t. if rt_user_id t = uid \<and> rt_revoked t = False
                          then t\<lparr>rt_revoked := True, rt_revoked_at := Some now\<rparr> else t) rts)"
  shows "both Q (snd (logout_all_devices req now (open_session T)))"
proof -
  have 0: "both Q (open_session T)" using assms(1) by (rule both_open)
  have 1: "both Q (snd (revoke_all_user_tokens (open_session T) now uid))" for uid
    using 0 assms(2) by (rule both_revoke_all)
  have 2: "both Q s2"
    if "block_presented t f r now (snd (revoke_all_user_tokens (open_session T) now uid)) = Inr s2"
    for t f r uid s2
    using 1 that by (rule both_block_presented)
  show ?thesis
    unfolding logout_all_devices_def Let_def
    using 0 1 2 by (auto simp: both_close split: option.splits sum.splits)
qed

lemma cleanup_durable:
  "refresh_tokens (durable (snd (cleanup_expired_tokens now (open_session T)))) =
     filter (\<lambda>t. \<not> (rt_expires_at t < now - 7 * 86400 \<and> rt_revoked t = True)) (refresh_tokens T)"
  by (simp add: cleanup_expired_tokens_def Let_def db_close_def db_commit_def open_session_def)

lemma step_shape:
  assumes "step U T T'" and "Q (refresh_tokens T)"
    and rev: "\<And>j now rts. Q rts \<Longrightarrow> Q (map (\<lambda>t. if rt_jti t = j then revoke t now else t) rts)"
    and bulk: "\<And>uid now rts. Q rts \<Longrightarrow> Q (map (\<lambda>t. if rt_user_id t = uid \<and> rt_revoked t = False
                          then t\<lparr>rt_revoked := True, rt_revoked_at := Some now\<rparr> else t) rts)"
    and new: "\<And>rts t. Q rts \<Longrightarrow> rt_jti t \<in> U \<Longrightarrow> rt_jti t \<notin> rt_jti ` set rts \<Longrightarrow> \<not> rt_revoked t \<Longrightarrow> Q (rts @ [t])"
  shows "Q (refresh_tokens T') \<or>
     (\<exists>now. refresh_tokens T' =
        filter (\<lambda>t. \<not> (rt_expires_at t < now - 7 * 86400 \<and> rt_revoked t = True))
          (refresh_tokens T))"
  using assms(1)
proof cases
  case step_validate
  then show ?thesis using assms(2) by simp
next
  case (step_users us)
  then show ?thesis using assms(2) by simp
next
  case (step_issue uuid_r cfg usr d ip now tk row s')
  have "both Q s'"
    using both_open[where Q=Q and T=T, OF assms(2)] step_issue(3)
    by (rule both_create) (use new step_issue(2) in auto)
  then show ?thesis using step_issue(1) by (simp add: both_def)
next
  case (step_login uuid_r cfg vp rl req form now uuid_a)
  have "both Q (snd (snd (login cfg vp rl req form now uuid_a uuid_r (open_session T))))"
    by (rule login_both[where Q=Q and T=T, OF assms(2)]) (use new step_login(2) in auto)
  then show ?thesis using step_login(1) by (simp add: both_def)
next
  case (step_refresh uuid_r cfg req body now uuid_a)
  have "both Q (snd (refresh_tokens_endpoint cfg req body now uuid_a uuid_r (open_session T)))"
    by (rule refresh_both[where Q=Q and T=T, OF assms(2)]) (use rev new step_refresh(2) in auto)
  then show ?thesis using step_refresh(1) by (simp add: both_def)
next
  case (step_logout req body now)
  have "both Q (snd (logout req body now (open_session T)))"
    by (rule logout_both[where Q=Q and T=T, OF assms(2)]) (use rev in auto)
  then show ?thesis using step_logout by (simp add: both_def)
next
  case (step_logout_all req now)
  have "both Q (snd (logout_all_devices req now (open_session T)))"
    by (rule logout_all_both[where Q=Q and T=T, OF assms(2)]) (use bulk in auto)
  then show ?thesis using step_logout_all by (simp add: both_def)
next
  case (step_revoke_all now uid)
  have "both Q (snd (revoke_all_user_tokens (open_session T) now uid))"
    by (rule both_revoke_all[OF both_open[where Q=Q and T=T, OF assms(2)]]) (use bulk in auto)
  then show ?thesis using step_revoke_all by (simp add: both_def)
next
  case (step_cleanup now)
  then show ?thesis by (auto simp: cleanup_durable)
qed

lemma step_preserves:
  assumes "step U T T'" and "Q (refresh_tokens T)"
    and rev: "\<And>j now rts. Q rts \<Longrightarrow> Q (map (\<lambda>t. if rt_jti t = j then revoke t now else t) rts)"
    and bulk: "\<And>uid now rts. Q rts \<Longrightarrow> Q (map (\<lambda>t. if rt_user_id t = uid \<and> rt_revoked t = False
                          then t\<lparr>rt_revoked := True, rt_revoked_at := Some now\<rparr> else t) rts)"
    and new: "\<And>rts t. Q rts \<Longrightarrow> rt_jti t \<in> U \<Longrightarrow> rt_jti t \<notin> rt_jti ` set rts \<Longrightarrow> \<not> rt_revoked t \<Longrightarrow> Q (rts @ [t])"
    and del: "\<And>now rts. Q rts \<Longrightarrow> Q (filter (\<lambda>t. \<not> (rt_expires_at t < now - 7 * 86400 \<and> rt_revoked t = True)) rts)"
  shows "Q (refresh_tokens T')"
  using step_shape[where Q=Q, OF assms(1,2) rev bulk new] del[OF assms(2)] by auto

section \<open>Revocation registry: lookup\<close>

lemma check_token_blocklist_iff:
  "check_token_blocklist db now j \<longleftrightarrow>
     (\<exists>b \<in> set (blocklist db). bl_jti b = j \<and> now < bl_expires_at b)"
  by (auto simp: check_token_blocklist_def find_None_iff)

text \<open>
  The UNIQUE constraint on \<open>jti\<close> holds of every blocklist the code builds: both
  blocking functions look the \<open>jti\<close> up before they insert.
\<close>

lemma block_token_keeps_jti_unique:
  assumes "distinct (map bl_jti (blocklist (cur s)))"
  shows "distinct (map bl_jti (blocklist (cur (snd (block_token ty s j e u r n)))))"
proof (cases "find (\<lambda>b. bl_jti b = j) (blocklist (cur s))")
  case None
  then have "j \<notin> bl_jti ` set (blocklist (cur s))"
    by (auto simp: find_None_iff)
  with assms None show ?thesis
    by (simp add: block_token_def Let_def db_commit_def)
next
  case (Some b)
  with assms show ?thesis by (simp add: block_token_def)
qed

text \<open>
  C6. \<open>check_token_blocklist\<close> (the registry's \<open>is_blocked\<close>) is true exactly when the
  table has an entry with that unique-id whose mirrored expiry lies after \<open>now\<close>. With
  the unique-id being a key of the table, an entry whose expiry is not after \<open>now\<close> does
  not block, although it is still in the table.
\<close>

theorem is_blocked_iff_unexpired_entry:
  "(check_token_blocklist db now j \<longleftrightarrow>
      (\<exists>b \<in> set (blocklist db). bl_jti b = j \<and> now < bl_expires_at b))
   \<and> (distinct (map bl_jti (blocklist db)) \<longrightarrow>
        (\<forall>b \<in> set (blocklist db).
           bl_expires_at b \<le> now \<longrightarrow> \<not> check_token_blocklist db now (bl_jti b)))"
proof (intro conjI impI ballI)
  show "check_token_blocklist db now j \<longleftrightarrow>
          (\<exists>b \<in> set (blocklist db). bl_jti b = j \<and> now < bl_expires_at b)"
    by (rule check_token_blocklist_iff)
next
  fix b
  assume d: "distinct (map bl_jti (blocklist db))" and b: "b \<in> set (blocklist db)"
    and e: "bl_expires_at b \<le> now"
  show "\<not> check_token_blocklist db now (bl_jti b)"
  proof
    assume "check_token_blocklist db now (bl_jti b)"
    then obtain b' where b': "b' \<in> set (blocklist db)" "bl_jti b' = bl_jti b"
        "now < bl_expires_at b'"
      by (auto simp: check_token_blocklist_iff)
    from d b b'(1,2) have "b' = b" by (meson distinct_map inj_onD)
    with e b'(3) show False by simp
  qed
qed

theorem is_blocked_iff_unexpired_entry_witness:
  "distinct (map bl_jti (blocklist db1)) \<and> \<not> check_token_blocklist db1 1000 ''j1''
   \<and> check_token_blocklist db1 999 ''j1''"
  using is_blocked_iff_unexpired_entry [of db1 1000 "''j1''"]
    is_blocked_iff_unexpired_entry [of db1 999 "''j1''"]
  by (simp add: db1_def)

section \<open>Access-token validator\<close>

text \<open>
  C10, as stated, fails: a token with a valid signature, type \<open>access\<close>, an \<open>exp\<close> that
  has not passed, the subject of an active user and no \<open>jti\<close>, which carries an \<open>aud\<close>
  claim, is rejected with the 401 of \<open>credentials_exception\<close>: \<open>jwt.decode\<close> is called
  with no audience and refuses every token that names one.
\<close>

theorem audience_token_is_rejected:
  "signature_ok T_aud \<and> c_type (payload T_aud) = Some ''access''
   \<and> c_exp (payload T_aud) = Some 500 \<and> c_jti (payload T_aud) = None
   \<and> get_user_by_email db1 ''a@b.com'' = Some alice \<and> is_active alice
   \<and> get_current_user db1 100 T_aud = Inl credentials_exception"
  by (simp add: T_aud_def get_current_user_def get_current_user_branch_def jwt_decode_def
      claims_error_def get_user_by_email_def db1_def alice_def)

text \<open>
  C10, amended. A token with a valid signature, type \<open>access\<close>, an \<open>exp\<close> that has not
  passed, a subject that resolves to an active user and no \<open>jti\<close> claim, which also
  passes the other checks of \<open>jwt.decode\<close> (no \<open>nbf\<close> after the current second, no
  \<open>aud\<close>, no \<open>at_hash\<close>), is accepted whatever the blocklist holds: the lookup is not
  made. No token without a \<open>jti\<close> is ever rejected as revoked. A token of
  \<open>create_access_token\<close> always carries the \<open>jti\<close> drawn for it.
\<close>

theorem token_without_jti_is_accepted:
  assumes "signature_ok token" and "c_type (payload token) = Some ''access''"
    and "c_exp (payload token) = Some e" and "now \<le> e"
    and "\<forall>n. c_nbf (payload token) = Some n \<longrightarrow> n \<le> now"
    and "c_aud (payload token) = None" and "c_at_hash (payload token) = None"
    and "c_sub (payload token) = Some em" and "get_user_by_email db em = Some u"
    and "is_active u" and "c_jti (payload token) = None"
  shows "(\<forall>bl. get_current_user (db\<lparr>blocklist := bl\<rparr>) now token = Inr u)
     \<and> (\<forall>db' now' t. c_jti (payload t) = None \<longrightarrow>
           get_current_user_branch db' now' t \<noteq> Inl Revoked
           \<and> get_current_user db' now' t \<noteq>
               Inl (HTTPException 401 Token_has_been_revoked
                      [(''WWW-Authenticate'', ''Bearer'')]))
     \<and> (\<forall>cfg data d n uuid.
           c_jti (payload (create_access_token cfg data d n uuid)) = Some uuid)"
proof (intro conjI allI impI)
  fix bl
  show "get_current_user (db\<lparr>blocklist := bl\<rparr>) now token = Inr u"
    using assms
    by (auto simp: get_current_user_def get_current_user_branch_def jwt_decode_def
        claims_error_def get_user_by_email_def split: option.splits)
next
  fix db' now' and t :: jwt
  assume n: "c_jti (payload t) = None"
  then show r: "get_current_user_branch db' now' t \<noteq> Inl Revoked"
    by (cases "jwt_decode True now' t")
      (auto simp: get_current_user_branch_def jwt_decode_def claims_error_def truthy_def
        split: if_splits option.splits elim: decode_branch.elims)
  show "get_current_user db' now' t \<noteq>
          Inl (HTTPException 401 Token_has_been_revoked [(''WWW-Authenticate'', ''Bearer'')])"
  proof (cases "get_current_user_branch db' now' t")
    case (Inl b)
    with r show ?thesis
      by (cases b) (simp_all add: get_current_user_def credentials_exception_def)
  next
    case (Inr u')
    then show ?thesis by (simp add: get_current_user_def)
  qed
next
  fix cfg data d n uuid
  show "c_jti (payload (create_access_token cfg data d n uuid)) = Some uuid"
    by (simp add: create_access_token_def Let_def)
qed

theorem token_without_jti_is_accepted_witness:
  "get_current_user
     (db1\<lparr>blocklist := [\<lparr>bl_jti = [], bl_token_type = ''access'', bl_user_id = None,
                          bl_expires_at = 1000, bl_revoked_at = 50, bl_reason = None\<rparr>]\<rparr>)
     100 (mk_token True (Some ''a@b.com'') None (Some ''access'') (Some 100)) = Inr alice
   \<and> get_current_user db1 100 (mk_token True (Some ''bob@b.com'') None (Some ''access'') (Some 100))
       \<noteq> Inl (HTTPException 401 Token_has_been_revoked [(''WWW-Authenticate'', ''Bearer'')])
   \<and> c_jti (payload (create_access_token default_settings (subject_only ''a@b.com'')
                       None 100 ''u1'')) = Some ''u1''"
  using token_without_jti_is_accepted
    [of "mk_token True (Some ''a@b.com'') None (Some ''access'') (Some 100)" 100 100
      "''a@b.com''" db1 alice]
  by (simp add: mk_token_def db1_def alice_def get_user_by_email_def)

text \<open>
  C4, as stated, fails: the response to a blocklisted token and the response to an
  inactive subject differ from the response to a malformed token.
\<close>

theorem rejections_are_distinguishable:
  "get_current_user db1 100
       (mk_token True (Some ''a@b.com'') (Some ''j1'') (Some ''access'') (Some 500))
     = Inl (HTTPException 401 Token_has_been_revoked [(''WWW-Authenticate'', ''Bearer'')])
   \<and> get_current_user db1 100
       (mk_token False (Some ''a@b.com'') (Some ''j1'') (Some ''access'') (Some 500))
     = Inl (HTTPException 401 Cannot_validate_credentials
              [(''WWW-Authenticate'', ''Bearer'')])
   \<and> get_current_user db1 100
       (mk_token True (Some ''bob@b.com'') (Some ''j2'') (Some ''access'') (Some 500))
     = Inl (HTTPException 403 User_account_is_inactive [])"
  by (simp add: get_current_user_def get_current_user_branch_def jwt_decode_def claims_error_def
      get_user_by_email_def check_token_blocklist_def db1_def mk_token_def alice_def bob_def
      credentials_exception_def)

text \<open>
  C4, amended. Two rejections that are neither for a blocklisted token nor for an
  inactive subject (so: malformed, not yet valid, expired, naming an audience or an
  \<open>at_hash\<close>, wrong type, no subject, unknown subject) get one and the same response, the 401 of \<open>credentials_exception\<close>. A blocklisted
  token gets a 401 whose detail is "Token has been revoked", an inactive subject a 403
  "User account is inactive".
\<close>

theorem rejection_responses:
  assumes "get_current_user_branch db now t = Inl b"
    and "get_current_user_branch db' now' t' = Inl b'"
  shows "(b \<notin> {Revoked, Inactive_subject} \<and> b' \<notin> {Revoked, Inactive_subject} \<longrightarrow>
            get_current_user db now t = get_current_user db' now' t'
            \<and> get_current_user db now t = Inl credentials_exception)
     \<and> (b = Revoked \<longrightarrow>
            get_current_user db now t =
              Inl (HTTPException 401 Token_has_been_revoked
                     [(''WWW-Authenticate'', ''Bearer'')]))
     \<and> (b = Inactive_subject \<longrightarrow>
            get_current_user db now t = Inl (HTTPException 403 User_account_is_inactive []))"
  using assms by (cases b; cases b') (simp_all add: get_current_user_def)

theorem rejection_responses_witness:
  "get_current_user db1 100
       (mk_token False (Some ''a@b.com'') (Some ''j1'') (Some ''access'') (Some 500))
     = get_current_user db1 100
       (mk_token True (Some ''nobody@b.com'') (Some ''j3'') (Some ''access'') (Some 500))
   \<and> get_current_user db1 100
       (mk_token False (Some ''a@b.com'') (Some ''j1'') (Some ''access'') (Some 500))
     = Inl credentials_exception"
proof -
  have 1: "get_current_user_branch db1 100
       (mk_token False (Some ''a@b.com'') (Some ''j1'') (Some ''access'') (Some 500))
     = Inl Malformed"
    by (simp add: get_current_user_branch_def jwt_decode_def claims_error_def mk_token_def)
  have 2: "get_current_user_branch db1 100
       (mk_token True (Some ''nobody@b.com'') (Some ''j3'') (Some ''access'') (Some 500))
     = Inl Unknown_subject"
    by (simp add: get_current_user_branch_def jwt_decode_def claims_error_def get_user_by_email_def
        check_token_blocklist_def db1_def mk_token_def alice_def bob_def)
  from rejection_responses [OF 1 2] show ?thesis by auto
qed

text \<open>
  C5, as stated, fails: a well-signed token of type \<open>refresh\<close> whose \<open>exp\<close> has passed
  fails the type check and the expiry check. The order of the specification makes the
  type check the earliest failing one; \<open>get_current_user\<close> rejects it in \<open>jwt.decode\<close>
  for the expiry.
\<close>

theorem expiry_is_checked_before_type:
  "earliest_failing spec_order db1 100
       (mk_token True (Some ''a@b.com'') (Some ''j9'') (Some ''refresh'') (Some 50))
     = Some Wrong_type
   \<and> get_current_user_branch db1 100
       (mk_token True (Some ''a@b.com'') (Some ''j9'') (Some ''refresh'') (Some 50))
     = Inl Expired"
  by (simp add: earliest_failing_def spec_order_def get_current_user_branch_def
      jwt_decode_def claims_error_def mk_token_def)

text \<open>
  C5, amended. The validator checks in the order: signature, \<open>nbf\<close>, expiry, absence
  of \<open>aud\<close> and \<open>at_hash\<close> (these inside \<open>jwt.decode\<close>), type, presence of a subject, registry lookup by unique-id (made only
  for a token that carries one), subject known, subject active. The rejection is the
  earliest failing check in that order, and a token that fails none is accepted. The
  validator is a function of the tables and the clock: it returns no new state.
\<close>

theorem rejection_is_earliest_in_code_order:
  "(case earliest_failing code_order db now t of
      Some b \<Rightarrow> get_current_user_branch db now t = Inl b
    | None \<Rightarrow> (\<exists>u. get_current_user_branch db now t = Inr u))"
  by (auto simp: earliest_failing_def code_order_def get_current_user_branch_def
      jwt_decode_def claims_error_def split: option.splits)

section \<open>Refresh tokens: revoked is terminal\<close>

lemma jti_if_revoke [simp]: "rt_jti (if c then revoke t now else t) = rt_jti t"
  by (simp add: revoke_def)

lemma jti_if_bulk [simp]:
  "rt_jti (if c then t\<lparr>rt_revoked := True, rt_revoked_at := x\<rparr> else t) = rt_jti t"
  by simp

lemma rt_inv_revoke: "rt_inv rts \<Longrightarrow> rt_inv (map (\<lambda>t. if rt_jti t = j then revoke t now else t) rts)"
  unfolding rt_inv_def by (auto simp: list_all_iff revoke_def comp_def)

lemma rt_inv_bulk: "rt_inv rts \<Longrightarrow> rt_inv (map (\<lambda>t. if rt_user_id t = uid \<and> rt_revoked t = False
                          then t\<lparr>rt_revoked := True, rt_revoked_at := Some now\<rparr> else t) rts)"
  unfolding rt_inv_def by (auto simp: list_all_iff comp_def)

lemma rt_inv_new: "rt_inv rts \<Longrightarrow> rt_jti t \<notin> rt_jti ` set rts \<Longrightarrow> \<not> rt_revoked t \<Longrightarrow> rt_inv (rts @ [t])"
  unfolding rt_inv_def by (auto simp: list_all_iff)

lemma rt_inv_filter: "rt_inv rts \<Longrightarrow> rt_inv (filter P rts)"
  unfolding rt_inv_def by (auto simp: list_all_iff distinct_map_filter)

lemma step_rt_inv: "step U T T' \<Longrightarrow> rt_inv (refresh_tokens T) \<Longrightarrow> rt_inv (refresh_tokens T')"
  by (erule step_preserves, assumption, erule rt_inv_revoke, erule rt_inv_bulk,
      (rule rt_inv_new; assumption), erule rt_inv_filter)

lemma reachable_rt_inv:
  "reachable U T0 T \<Longrightarrow> rt_inv (refresh_tokens T0) \<Longrightarrow> rt_inv (refresh_tokens T)"
  by (induction rule: reachable.induct) (auto dest: step_rt_inv)

lemma keeps_refl: "distinct (map rt_jti rts) \<Longrightarrow> keeps rts rts"
  unfolding keeps_def never_unrevoked_def
  by (auto simp: list_all_iff dest: inj_onD[OF iffD1[OF distinct_map, THEN conjunct2]])

lemma keeps_revoke: "keeps old rts \<Longrightarrow> keeps old (map (\<lambda>t. if rt_jti t = j then revoke t now else t) rts)"
  unfolding keeps_def never_unrevoked_def by (auto simp: list_all_iff revoke_def image_image)

lemma keeps_bulk: "keeps old rts \<Longrightarrow> keeps old (map (\<lambda>t. if rt_user_id t = uid \<and> rt_revoked t = False
                          then t\<lparr>rt_revoked := True, rt_revoked_at := Some now\<rparr> else t) rts)"
  unfolding keeps_def never_unrevoked_def by (auto simp: list_all_iff image_image)

lemma keeps_new: "keeps old rts \<Longrightarrow> rt_jti t \<notin> rt_jti ` set rts \<Longrightarrow> keeps old (rts @ [t])"
  unfolding keeps_def never_unrevoked_def by (auto simp: list_all_iff)

lemma never_unrevoked_filter:
  "distinct (map rt_jti rts) \<Longrightarrow> never_unrevoked rts (filter P rts)"
  unfolding never_unrevoked_def
  by (auto simp: list_all_iff dest: inj_onD[OF iffD1[OF distinct_map, THEN conjunct2]])

lemma step_never_unrevoked:
  assumes "step U T T'" and "distinct (map rt_jti (refresh_tokens T))"
  shows "never_unrevoked (refresh_tokens T) (refresh_tokens T')"
proof -
  have "keeps (refresh_tokens T) (refresh_tokens T') \<or>
     (\<exists>now. refresh_tokens T' =
        filter (\<lambda>t. \<not> (rt_expires_at t < now - 7 * 86400 \<and> rt_revoked t = True))
          (refresh_tokens T))"
    by (rule step_shape[where Q="keeps (refresh_tokens T)", OF assms(1)],
        rule keeps_refl[OF assms(2)], erule keeps_revoke, erule keeps_bulk,
        (rule keeps_new; assumption))
  then show ?thesis
    using never_unrevoked_filter[OF assms(2)] by (auto simp: keeps_def)
qed

text \<open>
  C9. From tables that meet the constraints, every state the subsystem reaches has
  \<open>revoked_at\<close> set on each revoked refresh-token row, and no step (login, rotation,
  logout, logout-all, account deletion, validation, cleanup) turns a revoked row back:
  a row that is revoked before the step is, if the step leaves it in the table, revoked
  after it.
\<close>

theorem revoked_is_terminal:
  assumes "reachable U T0 T" and "rt_inv (refresh_tokens T0)"
  shows "(\<forall>t \<in> set (refresh_tokens T). rt_revoked t \<longrightarrow> rt_revoked_at t \<noteq> None)
     \<and> (\<forall>T'. step U T T' \<longrightarrow>
           (\<forall>t \<in> set (refresh_tokens T). rt_revoked t \<longrightarrow>
              (\<forall>t' \<in> set (refresh_tokens T'). rt_jti t' = rt_jti t \<longrightarrow> rt_revoked t')))"
proof -
  have "rt_inv (refresh_tokens T)" using assms by (rule reachable_rt_inv)
  then show ?thesis
    using step_never_unrevoked[of U T]
    by (auto simp: rt_inv_def never_unrevoked_def list_all_iff)
qed

theorem revoked_is_terminal_witness:
  "reachable UNIV db2 (durable (snd (revoke_all_user_tokens (open_session db2) 100 1)))
   \<and> rt_inv (refresh_tokens db2)
   \<and> map rt_revoked
       (refresh_tokens (durable (snd (revoke_all_user_tokens (open_session db2) 100 1))))
     = [True]
   \<and> rt_revoked_at
       (hd (refresh_tokens (durable (snd (revoke_all_user_tokens (open_session db2) 100 1)))))
     \<noteq> None"
proof -
  let ?T = "durable (snd (revoke_all_user_tokens (open_session db2) 100 1))"
  have reach: "reachable UNIV db2 ?T"
    by (rule reach_step[OF reach_refl step_revoke_all])
  have inv: "rt_inv (refresh_tokens db2)"
    by (simp add: rt_inv_def db2_def r1_def)
  have rows: "refresh_tokens ?T = [r1\<lparr>rt_revoked := True, rt_revoked_at := Some 100\<rparr>]"
    by (simp add: revoke_all_user_tokens_def Let_def db2_def r1_def open_session_def
        db_commit_def)
  from revoked_is_terminal[OF reach inv] rows
  have "rt_revoked_at (hd (refresh_tokens ?T)) \<noteq> None" by simp
  with reach inv rows show ?thesis by simp
qed

section \<open>Revoke-all\<close>

lemma bulk_leaves_none:
  "filter (\<lambda>t. rt_user_id t = uid \<and> rt_revoked t = False)
     (map (\<lambda>t. if rt_user_id t = uid \<and> rt_revoked t = False
               then t\<lparr>rt_revoked := True, rt_revoked_at := Some now\<rparr> else t) rts) = []"
  by (induction rts) auto

lemma revoke_all_user_tokens_eq:
  "revoke_all_user_tokens s now uid =
     (length (filter (\<lambda>t. rt_user_id t = uid \<and> rt_revoked t = False) (refresh_tokens (cur s))),
      db_commit (s\<lparr>cur := (cur s)\<lparr>refresh_tokens :=
                 map (\<lambda>t. if rt_user_id t = uid \<and> rt_revoked t = False
                          then t\<lparr>rt_revoked := True, rt_revoked_at := Some now\<rparr> else t)
                     (refresh_tokens (cur s))\<rparr>\<rparr>))"
proof -
  let ?f = "\<lambda>t. if rt_user_id t = uid \<and> rt_revoked t = False
                 then t\<lparr>rt_revoked := True, rt_revoked_at := Some now\<rparr> else t"
  let ?s1 = "s\<lparr>cur := (cur s)\<lparr>refresh_tokens := map ?f (refresh_tokens (cur s))\<rparr>\<rparr>"
  have "refresh_tokens (cur ?s1) = map ?f (refresh_tokens (cur s))"
    by simp
  then have "filter (\<lambda>t. rt_user_id t = uid \<and> rt_revoked t = False) (refresh_tokens (cur ?s1)) = []"
    by (simp only: bulk_leaves_none)
  then show ?thesis
    unfolding revoke_all_user_tokens_def Let_def
    by (simp only: fold.simps id_apply)
qed

lemma revoke_all_blocks_nothing:
  "blocklist (cur (snd (revoke_all_user_tokens s now uid))) = blocklist (cur s)
   \<and> blocklist (durable (snd (revoke_all_user_tokens s now uid))) = blocklist (cur s)"
  by (simp add: revoke_all_user_tokens_eq db_commit_def)

lemma bulk_revokes_all:
  "list_all (\<lambda>t. rt_user_id t = uid \<longrightarrow> rt_revoked t)
     (map (\<lambda>t. if rt_user_id t = uid \<and> rt_revoked t = False
               then t\<lparr>rt_revoked := True, rt_revoked_at := Some now\<rparr> else t) rts)"
  by (induction rts) simp_all

lemma revoke_all_revokes_and_counts:
  "list_all (\<lambda>t. rt_user_id t = uid \<longrightarrow> rt_revoked t)
      (refresh_tokens (durable (snd (revoke_all_user_tokens s now uid))))
   \<and> fst (revoke_all_user_tokens s now uid) =
       length (filter (\<lambda>t. rt_user_id t = uid \<and> \<not> rt_revoked t) (refresh_tokens (cur s)))
   \<and> commits (snd (revoke_all_user_tokens s now uid)) =
       cur (snd (revoke_all_user_tokens s now uid)) # commits s"
  using bulk_revokes_all[of uid now "refresh_tokens (cur s)"]
  by (simp add: revoke_all_user_tokens_eq db_commit_def)

text \<open>
  C2. The code at a user with one live refresh token: the row is revoked and counted,
  and the registry gets no entry for it, where the claim has one entry per revoked
  unique-id. (\<open>revoke_all_blocks_nothing\<close> has it for every input: the rows to mirror
  are queried with \<open>revoked == False\<close> after the bulk update has set the flag.)
\<close>

theorem revoke_all_mirrors_nothing:
  "fst (revoke_all_user_tokens (open_session db2) 100 1) = 1
   \<and> map rt_revoked
       (refresh_tokens (durable (snd (revoke_all_user_tokens (open_session db2) 100 1))))
     = [True]
   \<and> blocklist (durable (snd (revoke_all_user_tokens (open_session db2) 100 1))) = []
   \<and> check_token_blocklist
       (durable (snd (revoke_all_user_tokens (open_session db2) 100 1))) 100 ''r1'' = False"
  by (simp add: revoke_all_user_tokens_eq db_commit_def open_session_def db2_def r1_def
      check_token_blocklist_def)

section \<open>Rotation\<close>

lemma verify_success_facts:
  assumes "verify_refresh_token T now R = Inr (u, tok)"
  shows "signature_ok R \<and> c_type (payload R) = Some ''refresh''
     \<and> c_jti (payload R) = Some (rt_jti tok) \<and> rt_jti tok \<noteq> []
     \<and> (\<exists>e. c_sub (payload R) = Some e \<and> e \<noteq> [])
     \<and> tok \<in> set (refresh_tokens T) \<and> \<not> rt_revoked tok \<and> now < rt_expires_at tok
     \<and> u \<in> set (users T) \<and> is_active u
     \<and> jwt_decode True now R = Inr (payload R)"
proof -
  from assms have d: "jwt_decode True now R = Inr (payload R)" and s: "signature_ok R"
    by (auto simp: verify_refresh_token_def jwt_decode_def claims_error_def split: sum.splits if_splits option.splits)
  from assms d obtain j e where je: "c_jti (payload R) = Some j" "c_sub (payload R) = Some e"
    "j \<noteq> []" "e \<noteq> []" "c_type (payload R) = Some ''refresh''"
    by (auto simp: verify_refresh_token_def truthy_def split: if_splits option.splits)
  from assms d je have f: "find (\<lambda>t. rt_jti t = j \<and> rt_revoked t = False) (refresh_tokens T) = Some tok"
    and v: "is_valid tok now" and uu: "find (\<lambda>u. email u = e) (users T) = Some u" and "is_active u"
    by (auto simp: verify_refresh_token_def truthy_def split: if_splits option.splits)
  from f have "tok \<in> set (refresh_tokens T)" "rt_jti tok = j" "\<not> rt_revoked tok"
    by (auto simp: find_Some_iff in_set_conv_nth)
  moreover from uu have "u \<in> set (users T)" by (auto simp: find_Some_iff in_set_conv_nth)
  ultimately show ?thesis using s je v d \<open>is_active u\<close> by (auto simp: is_valid_def)
qed

lemma jwt_decode_Inr: "jwt_decode v now R = Inr p \<Longrightarrow> p = payload R"
  by (auto simp: jwt_decode_def split: if_splits option.splits)

lemma verify_dead:
  assumes "c_type (payload R) = Some ''refresh''" "c_jti (payload R) = Some j"
     "j \<noteq> []" "c_sub (payload R) = Some e" "e \<noteq> []" "dead j (refresh_tokens T)"
  shows "verify_refresh_token T now R =
     Inl (unauthorized (if isl (jwt_decode True now R) then Could_not_validate_token
                        else Token_revoked_or_does_not_exist))"
proof (cases "jwt_decode True now R")
  case (Inl x)
  then show ?thesis by (simp add: verify_refresh_token_def)
next
  case (Inr p)
  then have p: "p = payload R" by (rule jwt_decode_Inr)
  have "find (\<lambda>t. rt_jti t = j \<and> rt_revoked t = False) (refresh_tokens T) = None"
    using assms(6) by (auto simp: dead_def list_all_iff find_None_iff)
  then show ?thesis using assms(1-5) Inr p
    by (simp add: verify_refresh_token_def truthy_def)
qed

lemma decode_later:
  assumes "jwt_decode True now R = Inr p" and "now \<le> now'"
  shows "isl (jwt_decode True now' R) \<longleftrightarrow> exp_passed R now'"
  using assms
  by (auto simp: jwt_decode_def claims_error_def exp_passed_def split: if_splits option.splits)

lemma dead_revoke: "dead j rts \<Longrightarrow> dead j (map (\<lambda>t. if rt_jti t = k then revoke t now else t) rts)"
  by (induction rts) (simp_all add: dead_def revoke_def)

lemma dead_revoke_same: "dead j (map (\<lambda>t. if rt_jti t = j then revoke t now else t) rts)"
  by (induction rts) (simp_all add: dead_def revoke_def)

lemma dead_bulk: "dead j rts \<Longrightarrow> dead j (map (\<lambda>t. if rt_user_id t = uid \<and> rt_revoked t = False
                          then t\<lparr>rt_revoked := True, rt_revoked_at := Some now\<rparr> else t) rts)"
  by (induction rts) (simp_all add: dead_def)

lemma dead_new: "dead j rts \<Longrightarrow> rt_jti t \<noteq> j \<Longrightarrow> dead j (rts @ [t])"
  by (simp add: dead_def)

lemma dead_filter: "dead j rts \<Longrightarrow> dead j (filter P rts)"
  by (induction rts) (simp_all add: dead_def)

lemma step_dead: "step (- {j}) T T' \<Longrightarrow> dead j (refresh_tokens T) \<Longrightarrow> dead j (refresh_tokens T')"
  by (erule step_preserves, assumption, erule dead_revoke, erule dead_bulk,
      (rule dead_new; simp), erule dead_filter)

lemma reachable_dead:
  "reachable (- {j}) T T' \<Longrightarrow> dead j (refresh_tokens T) \<Longrightarrow> dead j (refresh_tokens T')"
  by (induction rule: reachable.induct) (auto dest: step_dead)


lemma find_SomeD: "find P xs = Some x \<Longrightarrow> x \<in> set xs \<and> P x"
  by (induction xs) (auto split: if_splits)

lemma jtis_revoke:
  "rt_jti ` set (map (\<lambda>t. if rt_jti t = j then revoke t now else t) rts) = rt_jti ` set rts"
  by (induction rts) (simp_all add: revoke_def)

lemma block_token_entry:
  "\<exists>b \<in> set (blocklist (cur (snd (block_token ty s j e u r n)))). bl_jti b = j"
  by (auto simp: block_token_def Let_def db_commit_def split: option.splits dest: find_SomeD)

lemma block_token_rows:
  "refresh_tokens (cur (snd (block_token ty s j e u r n))) = refresh_tokens (cur s)
   \<and> users (cur (snd (block_token ty s j e u r n))) = users (cur s)"
  by (simp add: block_token_def Let_def db_commit_def split: option.splits)

lemma block_token_commits:
  "commits (snd (block_token ty s j e u r n)) = commits s \<or>
   commits (snd (block_token ty s j e u r n)) = cur (snd (block_token ty s j e u r n)) # commits s"
  by (simp add: block_token_def Let_def db_commit_def split: option.splits)

lemma create_refresh_token_result:
  assumes "create_refresh_token cfg s usr d ip now uuid = Inr (tk, row, s')"
  shows "refresh_tokens (cur s') = refresh_tokens (cur s) @ [row] \<and> rt_jti row = uuid
     \<and> \<not> rt_revoked row \<and> uuid \<notin> rt_jti ` set (refresh_tokens (cur s))
     \<and> blocklist (cur s') = blocklist (cur s) \<and> users (cur s') = users (cur s)
     \<and> durable s' = cur s' \<and> commits s' = cur s' # commits s
     \<and> tk = \<lparr>signature_ok = True, payload = \<lparr>c_sub = Some (email usr), c_jti = Some uuid,
             c_type = Some ''refresh'',
             c_exp = Some (now + REFRESH_TOKEN_EXPIRE_DAYS cfg * 86400),
             c_nbf = None, c_aud = None, c_at_hash = None\<rparr>\<rparr>"
  using assms
  by (auto simp: create_refresh_token_def Let_def db_commit_def split: if_splits)

lemma rotation_result:
  assumes "refresh_tokens_endpoint cfg req R now ua ur (open_session T) = (Inr out, s')"
  shows "\<exists>u tok. verify_refresh_token T now R = Inr (u, tok)
     \<and> list_all (\<lambda>C. dead (rt_jti tok) (refresh_tokens C)
                     \<and> (\<exists>b \<in> set (blocklist C). bl_jti b = rt_jti tok)) (commits s')
     \<and> commits s' \<noteq> [] \<and> hd (commits s') = durable s' \<and> cur s' = durable s'
     \<and> (\<exists>new \<in> set (refresh_tokens (durable s')). rt_jti new = ur \<and> \<not> rt_revoked new)
     \<and> ur \<noteq> rt_jti tok"
proof (cases "verify_refresh_token T now R")
  case (Inl e)
  with assms show ?thesis by (simp add: refresh_tokens_endpoint_def open_session_def)
next
  case (Inr p)
  obtain u tok where p: "p = (u, tok)" by (cases p)
  let ?s1 = "revoke_row tok now (open_session T)"
  let ?s2 = "snd (block_token ''refresh'' ?s1 (rt_jti tok) (rt_expires_at tok)
                 (Some (user_id u)) (Some ''Token rotation'') now)"
  from assms Inr p obtain tk row s3 where
    c: "create_refresh_token cfg ?s2 u (Some (agent_of req)) (Some (get_client_ip req)) now ur = Inr (tk, row, s3)"
    and s': "s' = db_close s3"
    by (auto simp: refresh_tokens_endpoint_def Let_def open_session_def block_refresh_token_def
        split: sum.splits prod.splits)
  note r = create_refresh_token_result[OF c]
  have rows2: "refresh_tokens (cur ?s2) = map (\<lambda>t. if rt_jti t = rt_jti tok then revoke t now else t) (refresh_tokens T)"
    by (simp add: block_token_rows revoke_row_def open_session_def)
  have d2: "dead (rt_jti tok) (refresh_tokens (cur ?s2))"
    unfolding rows2 by (rule dead_revoke_same)
  have tokin: "tok \<in> set (refresh_tokens T)"
    using verify_success_facts[OF Inr[unfolded p]] by simp
  from r have "ur \<notin> rt_jti ` set (refresh_tokens (cur ?s2))" by blast
  then have fresh: "ur \<notin> rt_jti ` set (refresh_tokens T)"
    unfolding rows2 jtis_revoke .
  have ne: "ur \<noteq> rt_jti tok"
    using fresh tokin by blast
  have b2: "\<exists>b \<in> set (blocklist (cur ?s2)). bl_jti b = rt_jti tok"
    by (rule block_token_entry)
  have d3: "dead (rt_jti tok) (refresh_tokens (cur s3))"
    using r d2 ne by (simp add: dead_new)
  have b3: "\<exists>b \<in> set (blocklist (cur s3)). bl_jti b = rt_jti tok"
    using r b2 by simp
  have c1: "commits ?s1 = []" by (simp add: revoke_row_def open_session_def)
  have c2: "commits ?s2 = [] \<or> commits ?s2 = [cur ?s2]"
    using block_token_commits[of "''refresh''" ?s1 "rt_jti tok" "rt_expires_at tok"
        "Some (user_id u)" "Some ''Token rotation''" now] c1 by simp
  have c3: "commits s3 = cur s3 # commits ?s2" using r by simp
  have all: "list_all (\<lambda>C. dead (rt_jti tok) (refresh_tokens C)
                     \<and> (\<exists>b \<in> set (blocklist C). bl_jti b = rt_jti tok)) (commits s3)"
    using c2 c3 d2 d3 b2 b3 by auto
  have new: "\<exists>new \<in> set (refresh_tokens (durable s3)). rt_jti new = ur \<and> \<not> rt_revoked new"
    using r by auto
  show ?thesis
    using Inr p all new c3 r ne s' by (simp add: db_close_def)
qed


lemma rotate_R1:
  "refresh_tokens_endpoint default_settings req0 R1 100 ''ua'' ''ub'' (open_session db2) =
     (Inr \<lparr>access_token = mk_token True (Some ''a@b.com'') (Some ''ua'') (Some ''access'') (Some 1000),
           refresh_token = mk_token True (Some ''a@b.com'') (Some ''ub'') (Some ''refresh'') (Some 2592100),
           token_type = ''bearer'', expires_in = 900\<rparr>,
      \<lparr>cur = \<lparr>users = [alice, bob],
               refresh_tokens = [r1\<lparr>rt_revoked := True, rt_revoked_at := Some 100\<rparr>,
                  \<lparr>rt_user_id = 1, rt_jti = ''ub'', rt_expires_at = 2592100, rt_created_at = 100,
                   rt_revoked = False, rt_revoked_at = None, rt_device_info = Some [],
                   rt_ip_address = Some ''1.2.3.4''\<rparr>],
               blocklist = [\<lparr>bl_jti = ''r1'', bl_token_type = ''refresh'', bl_user_id = Some 1,
                  bl_expires_at = 5000, bl_revoked_at = 100, bl_reason = Some ''Token rotation''\<rparr>]\<rparr>,
       durable = \<lparr>users = [alice, bob],
               refresh_tokens = [r1\<lparr>rt_revoked := True, rt_revoked_at := Some 100\<rparr>,
                  \<lparr>rt_user_id = 1, rt_jti = ''ub'', rt_expires_at = 2592100, rt_created_at = 100,
                   rt_revoked = False, rt_revoked_at = None, rt_device_info = Some [],
                   rt_ip_address = Some ''1.2.3.4''\<rparr>],
               blocklist = [\<lparr>bl_jti = ''r1'', bl_token_type = ''refresh'', bl_user_id = Some 1,
                  bl_expires_at = 5000, bl_revoked_at = 100, bl_reason = Some ''Token rotation''\<rparr>]\<rparr>,
       commits = [\<lparr>users = [alice, bob],
               refresh_tokens = [r1\<lparr>rt_revoked := True, rt_revoked_at := Some 100\<rparr>,
                  \<lparr>rt_user_id = 1, rt_jti = ''ub'', rt_expires_at = 2592100, rt_created_at = 100,
                   rt_revoked = False, rt_revoked_at = None, rt_device_info = Some [],
                   rt_ip_address = Some ''1.2.3.4''\<rparr>],
               blocklist = [\<lparr>bl_jti = ''r1'', bl_token_type = ''refresh'', bl_user_id = Some 1,
                  bl_expires_at = 5000, bl_revoked_at = 100, bl_reason = Some ''Token rotation''\<rparr>]\<rparr>,
              \<lparr>users = [alice, bob],
               refresh_tokens = [r1\<lparr>rt_revoked := True, rt_revoked_at := Some 100\<rparr>],
               blocklist = [\<lparr>bl_jti = ''r1'', bl_token_type = ''refresh'', bl_user_id = Some 1,
                  bl_expires_at = 5000, bl_revoked_at = 100, bl_reason = Some ''Token rotation''\<rparr>]\<rparr>]\<rparr>)"
  by (simp add: refresh_tokens_endpoint_def verify_refresh_token_def jwt_decode_def claims_error_def R1_def
      mk_token_def truthy_def db2_def r1_def alice_def bob_def is_valid_def open_session_def
      revoke_row_def revoke_def block_refresh_token_def block_token_def db_commit_def
      db_close_def create_refresh_token_def create_access_token_def subject_only_def
      default_settings_def req0_def get_client_ip_def agent_of_def Let_def)


text \<open>
  C3, as stated, fails for a later use after the token's own expiry: the rotation of a
  refresh token succeeds at 100; validating the same token at 6000, past its \<open>exp\<close> of
  5000, is rejected by \<open>jwt.decode\<close> with "Could not validate token", not as revoked.
\<close>

theorem rotated_token_after_expiry:
  "\<not> isl (fst (refresh_tokens_endpoint default_settings req0 R1 100 ''ua'' ''ub'' (open_session db2)))
   \<and> verify_refresh_token
       (durable (snd (refresh_tokens_endpoint default_settings req0 R1 100 ''ua'' ''ub''
                        (open_session db2)))) 6000 R1
     = Inl (HTTPException 401 Could_not_validate_token [])"
  by (simp add: rotate_R1)
    (simp add: verify_refresh_token_def jwt_decode_def claims_error_def R1_def mk_token_def unauthorized_def)

text \<open>
  C3, amended. After a rotation of \<open>R\<close> has succeeded, in every state the subsystem
  reaches from there without \<open>uuid4\<close> drawing the unique-id of \<open>R\<close> again, validating
  or rotating \<open>R\<close> at any instant is rejected with 401: with "Could not validate token"
  when \<open>jwt.decode\<close> refuses \<open>R\<close> at that instant, and as "revoked or does not exist"
  otherwise. At an instant not before the rotation \<open>jwt.decode\<close> refuses \<open>R\<close> exactly
  when the \<open>exp\<close> of \<open>R\<close> has passed. Within the rotation every committed state has the old row revoked and its
  unique-id in the registry; the new row is in the last of them only, so the new token
  is never committed before the revocation.
\<close>

theorem rotation_is_single_use:
  assumes rot: "refresh_tokens_endpoint cfg req R now uuid_a uuid_r (open_session T) = (Inr out, s')"
    and j: "c_jti (payload R) = Some j"
    and later: "reachable (- {j}) (durable s') T''"
  shows "verify_refresh_token T'' now' R =
           Inl (unauthorized (if isl (jwt_decode True now' R) then Could_not_validate_token
                              else Token_revoked_or_does_not_exist))
     \<and> fst (refresh_tokens_endpoint cfg' req' R now' uuid_a' uuid_r' (open_session T'')) =
           Inl (Http (unauthorized (if isl (jwt_decode True now' R)
                                    then Could_not_validate_token
                                    else Token_revoked_or_does_not_exist)))
     \<and> (now \<le> now' \<longrightarrow> (isl (jwt_decode True now' R) \<longleftrightarrow> exp_passed R now'))
     \<and> (\<forall>C \<in> set (commits s').
           (\<forall>t \<in> set (refresh_tokens C). rt_jti t = j \<longrightarrow> rt_revoked t)
           \<and> (\<exists>b \<in> set (blocklist C). bl_jti b = j))
     \<and> commits s' \<noteq> [] \<and> hd (commits s') = durable s'
     \<and> (\<exists>new \<in> set (refresh_tokens (durable s')). rt_jti new = uuid_r \<and> \<not> rt_revoked new)"
proof -
  from rotation_result[OF rot] obtain u tok where
    v: "verify_refresh_token T now R = Inr (u, tok)"
    and all: "list_all (\<lambda>C. dead (rt_jti tok) (refresh_tokens C)
                     \<and> (\<exists>b \<in> set (blocklist C). bl_jti b = rt_jti tok)) (commits s')"
    and ne: "commits s' \<noteq> []" and hd: "hd (commits s') = durable s'"
    and new: "\<exists>new \<in> set (refresh_tokens (durable s')). rt_jti new = uuid_r \<and> \<not> rt_revoked new"
    by blast
  note f = verify_success_facts[OF v]
  from f j have jt: "rt_jti tok = j" by simp
  from ne hd have "durable s' \<in> set (commits s')" by (metis list.set_sel(1))
  with all jt have "dead j (refresh_tokens (durable s'))" by (simp add: list_all_iff)
  with later have d: "dead j (refresh_tokens T'')" by (rule reachable_dead)
  from f obtain e where e: "c_sub (payload R) = Some e" "e \<noteq> []" by blast
  have 1: "verify_refresh_token T'' now' R =
           Inl (unauthorized (if isl (jwt_decode True now' R) then Could_not_validate_token
                              else Token_revoked_or_does_not_exist))"
    using f j jt e d by (intro verify_dead) simp_all
  then have 2: "fst (refresh_tokens_endpoint cfg' req' R now' uuid_a' uuid_r' (open_session T'')) =
           Inl (Http (unauthorized (if isl (jwt_decode True now' R)
                                    then Could_not_validate_token
                                    else Token_revoked_or_does_not_exist)))"
    by (simp add: refresh_tokens_endpoint_def open_session_def)
  from f have dec: "jwt_decode True now R = Inr (payload R)" by blast
  have 4: "now \<le> now' \<longrightarrow> (isl (jwt_decode True now' R) \<longleftrightarrow> exp_passed R now')"
    using decode_later[OF dec] by blast
  from all jt have 3: "\<forall>C \<in> set (commits s').
           (\<forall>t \<in> set (refresh_tokens C). rt_jti t = j \<longrightarrow> rt_revoked t)
           \<and> (\<exists>b \<in> set (blocklist C). bl_jti b = j)"
    by (simp add: list_all_iff dead_def)
  from 1 2 3 4 ne hd new show ?thesis by blast
qed

theorem rotation_is_single_use_witness:
  "\<not> isl (fst (refresh_tokens_endpoint default_settings req0 R1 100 ''ua'' ''ub'' (open_session db2)))
   \<and> verify_refresh_token
       (durable (snd (refresh_tokens_endpoint default_settings req0 R1 100 ''ua'' ''ub''
                        (open_session db2)))) 200 R1
     = Inl (HTTPException 401 Token_revoked_or_does_not_exist [])
   \<and> fst (refresh_tokens_endpoint default_settings req0 R1 200 ''uc'' ''ud''
        (open_session (durable (snd (refresh_tokens_endpoint default_settings req0 R1 100
                                        ''ua'' ''ub'' (open_session db2))))))
     = Inl (Http (HTTPException 401 Token_revoked_or_does_not_exist []))"
proof -
  obtain out s' where
    rot: "refresh_tokens_endpoint default_settings req0 R1 100 ''ua'' ''ub'' (open_session db2) = (Inr out, s')"
    using rotate_R1 by blast
  have j: "c_jti (payload R1) = Some ''r1''" by (simp add: R1_def mk_token_def)
  have e: "\<not> isl (jwt_decode True 200 R1)"
    by (simp add: jwt_decode_def claims_error_def R1_def mk_token_def)
  from rotation_is_single_use[OF rot j reach_refl, of 200 default_settings req0 "''uc''" "''ud''"] e rot
  show ?thesis by (simp add: unauthorized_def)
qed

section \<open>Logout\<close>




lemma decode_unverified_later:
  "started t now \<Longrightarrow> now \<le> now' \<Longrightarrow> jwt_decode False now' t = jwt_decode False now t"
  by (auto simp: jwt_decode_def claims_error_def started_def split: option.splits)



















lemmas logout_eval =
  logout_def bearer_token_def block_presented_def block_access_token_def
  block_refresh_token_def utcfromtimestamp_def
  block_token_def logout_user_id_def verify_refresh_token_def jwt_decode_def claims_error_def
  truthy_def is_valid_def revoke_row_def revoke_def db_commit_def db_close_def open_session_def
  unauthorized_def mk_token_def req0_def alice_def bob_def Let_def



text \<open>
  The conversion of \<open>exp\<close> can raise. A well-signed bearer token with a \<open>jti\<close> and an
  \<open>exp\<close> one second past the year 9999 makes \<open>utcfromtimestamp\<close> raise inside the
  \<open>try\<close> that catches \<open>JWTError\<close> only: the request ends with the exception (status
  500), the refresh token of the body is not looked at, and nothing is written.
\<close>

lemma logout_raises_on_unconvertible_exp:
  "logout req_far (Some R1) 100 (open_session db2) = (Inl ValueError, open_session db2)
   \<and> after_logout req_far (Some R1) 100 db2 = db2"
  by (simp add: after_logout_def logout_eval req_far_def A2_def)

text \<open>
  A token presented before its \<open>nbf\<close> is skipped as invalid, and is no longer skipped
  once the \<open>nbf\<close> has come: a logout at 100 with a refresh token whose \<open>nbf\<close> is 150
  leaves its row as it is, and the same logout at 200 revokes it.
\<close>

lemma logout_before_nbf:
  "map rt_revoked (refresh_tokens (after_logout req0 (Some R_nbf) 100 db2)) = [False]
   \<and> map rt_revoked
       (refresh_tokens (after_logout req0 (Some R_nbf) 200
                          (after_logout req0 (Some R_nbf) 100 db2))) = [True]"
  by (simp add: after_logout_def logout_eval R_nbf_def R1_def db2_def r1_def)

text \<open>
  \<open>POST /auth/logout-all\<close> with the scheme written \<open>bearer\<close>: the dependency accepts
  the token, the rows of the user are revoked, and the endpoint, which looks for
  \<open>Bearer \<close>, puts nothing on the blocklist.
\<close>

lemma logout_all_lower_case_scheme:
  "fst (logout_all_devices req_lower 100 (open_session db2)) = Inr 204
   \<and> map rt_revoked
       (refresh_tokens (durable (snd (logout_all_devices req_lower 100 (open_session db2)))))
     = [True]
   \<and> blocklist (durable (snd (logout_all_devices req_lower 100 (open_session db2)))) = []"
  by (simp add: logout_all_devices_def oauth2_scheme_def bearer_token_def lower_char_def
      req_lower_def req0_def A1_def mk_token_def get_current_user_def
      get_current_user_branch_def jwt_decode_def claims_error_def check_token_blocklist_def
      get_user_by_email_def truthy_def
      revoke_all_user_tokens_eq db_commit_def db_close_def open_session_def db2_def r1_def
      alice_def bob_def Let_def)



section \<open>Counting-store failure\<close>

lemmas redis_defs = pop_fault_def redis_get_def redis_setex_def redis_delete_def redis_ttl_def
  redis_execute_def round_trips_def store_raised_def store_down_def

lemma record_failed_login_open:
  "store_down rl (snd (record_failed_login cfg rl now i)) \<Longrightarrow>
   fst (record_failed_login cfg rl now i) = (0, False)"
  by (auto simp: record_failed_login_def redis_defs Let_def
      split: option.splits list.splits if_splits bool.splits)

lemma get_remaining_attempts_open:
  "store_down rl (snd (get_remaining_attempts cfg rl now i)) \<Longrightarrow>
   fst (get_remaining_attempts cfg rl now i) = BRUTE_FORCE_MAX_ATTEMPTS cfg"
  by (auto simp: get_remaining_attempts_def redis_defs Let_def
      split: option.splits list.splits if_splits bool.splits)

lemma get_lockout_ttl_open:
  "store_down rl (snd (get_lockout_ttl rl now i)) \<Longrightarrow> fst (get_lockout_ttl rl now i) = None"
  by (auto simp: get_lockout_ttl_def redis_defs Let_def
      split: option.splits list.splits if_splits bool.splits)

lemma reset_failed_logins_open:
  "store_down rl (reset_failed_logins rl now i) \<Longrightarrow>
   map_option kv (redis_client (reset_failed_logins rl now i)) = map_option kv (redis_client rl)"
  by (auto simp: reset_failed_logins_def redis_defs Let_def
      split: option.splits list.splits if_splits bool.splits)

lemma check_rate_limit_open:
  "store_down rl (snd (check_rate_limit cfg rl req lpm lph now)) \<Longrightarrow>
   fst (check_rate_limit cfg rl req lpm lph now) = (True, None)"
  by (auto simp: check_rate_limit_def redis_defs Let_def
      split: option.splits list.splits if_splits bool.splits)


lemma login_open:
  assumes "store_down rl (snd (record_failed_login cfg rl now (get_client_ip req @ '':'' @ username form)))"
  shows "(\<forall>d h. fst (login cfg vp rl req form now uuid_a uuid_r s) \<noteq> Inl (Http (HTTPException 429 d h)))
     \<and> (\<forall>usr. find (\<lambda>u. email u = username form) (users (cur s)) = Some usr
            \<and> vp (password form) (hashed_password usr)
            \<and> uuid_r \<notin> set (map rt_jti (refresh_tokens (cur s)))
          \<longrightarrow> \<not> isl (fst (login cfg vp rl req form now uuid_a uuid_r s)))"
proof -
  from record_failed_login_open[OF assms]
  have nl: "\<not> snd (fst (record_failed_login cfg rl now (get_client_ip req @ '':'' @ username form)))"
    by simp
  show ?thesis
    using nl
    by (auto simp: login_def Let_def wrong_credentials_def create_refresh_token_def
        split: option.splits sum.splits prod.splits)
qed

text \<open>
  The methods of \<open>RateLimiter\<close> fail open. Whenever the limiter has no client (rate
  limiting off, or the store unreachable when the limiter was built) or a round trip
  of the call raises: \<open>record_failed_login\<close> returns \<open>(0, False)\<close>,
  \<open>reset_failed_logins\<close> returns and leaves the counters as they were,
  \<open>get_lockout_ttl\<close> returns \<open>None\<close>, \<open>get_remaining_attempts\<close> the full number of
  attempts, and \<open>check_rate_limit\<close> allows the request. The body of \<open>login\<close>, when its
  failure recording met such a failure, never answers 429, and succeeds on right
  credentials.
\<close>

lemma rate_limiter_fails_open:
  "(store_down rl (snd (record_failed_login cfg rl now i)) \<longrightarrow>
      fst (record_failed_login cfg rl now i) = (0, False))
   \<and> (store_down rl (reset_failed_logins rl now i) \<longrightarrow>
      map_option kv (redis_client (reset_failed_logins rl now i)) = map_option kv (redis_client rl))
   \<and> (store_down rl (snd (get_lockout_ttl rl now i)) \<longrightarrow> fst (get_lockout_ttl rl now i) = None)
   \<and> (store_down rl (snd (get_remaining_attempts cfg rl now i)) \<longrightarrow>
      fst (get_remaining_attempts cfg rl now i) = BRUTE_FORCE_MAX_ATTEMPTS cfg)
   \<and> (store_down rl (snd (check_rate_limit cfg rl req lpm lph now)) \<longrightarrow>
      fst (check_rate_limit cfg rl req lpm lph now) = (True, None))
   \<and> (store_down rl (snd (record_failed_login cfg rl now
                              (get_client_ip req @ '':'' @ username form))) \<longrightarrow>
      (\<forall>d h. fst (login cfg vp rl req form now uuid_a uuid_r s)
                \<noteq> Inl (Http (HTTPException 429 d h)))
      \<and> (\<forall>usr. find (\<lambda>u. email u = username form) (users (cur s)) = Some usr
            \<and> vp (password form) (hashed_password usr)
            \<and> uuid_r \<notin> set (map rt_jti (refresh_tokens (cur s)))
          \<longrightarrow> \<not> isl (fst (login cfg vp rl req form now uuid_a uuid_r s))))
   \<and> (\<forall>server fs. faults server = True # fs \<longrightarrow>
         redis_client (rate_limiter_init cfg server) = None)"
  using record_failed_login_open[of rl cfg now i] reset_failed_logins_open[of rl now i]
    get_lockout_ttl_open[of rl now i] get_remaining_attempts_open[of rl cfg now i]
    check_rate_limit_open[of rl cfg req lpm lph now]
    login_open[of rl cfg now req form vp uuid_a uuid_r s]
  by (auto simp: rate_limiter_init_def pop_fault_def)

lemma login_body_open_sample:
  "\<not> isl (fst (login default_settings vp0 rl_down req0 form_ok 100 ''ua'' ''ub''
                  (open_session db2)))"
proof -
  have 1: "store_down rl_down
             (snd (record_failed_login default_settings rl_down 100
                     (get_client_ip req0 @ '':'' @ username form_ok)))"
    by (simp add: record_failed_login_def redis_defs rl_down_def Let_def)
  have 4: "find (\<lambda>u. email u = username form_ok) (users (cur (open_session db2))) = Some alice
     \<and> vp0 (password form_ok) (hashed_password alice)
     \<and> ''ub'' \<notin> set (map rt_jti (refresh_tokens (cur (open_session db2))))"
    by (simp add: open_session_def db2_def alice_def bob_def r1_def form_ok_def vp0_def)
  from login_open[OF 1, of vp0 "''ua''" "''ub''" "open_session db2"] 4
  show ?thesis by blast
qed

lemma login_body_wrong_sample:
  "fst (login default_settings vp0 rl_down req0 form_wrong 100 ''ua'' ''ub'' (open_session db2))
     = Inl (Http (HTTPException 401 (Wrong_email_or_password 5) []))"
  by (simp add: login_def Let_def record_failed_login_def get_remaining_attempts_def
      wrong_credentials_def redis_get_def pop_fault_def rl_down_def form_wrong_def
      default_settings_def open_session_def db2_def alice_def bob_def vp0_def)

lemma check_request_limit_down:
  "check_request_limit lim_down req0 100 ''app.api.auth.login'' login_limits =
     (Inl StorageError, \<lparr>storage = \<lparr>kv = Map.empty, faults = [True, True]\<rparr>\<rparr>)"
  by (simp add: check_request_limit_def limiter_get_client_ip_def req0_def truthy_def
      login_limits_def redis_incr_def pop_fault_def lim_down_def Let_def)

lemma limiter_init_failing: "limiter_init server_failing = lim_down"
  by (simp add: limiter_init_def pop_fault_def server_failing_def lim_down_def)

lemma login_route_down:
  "fst (login_route cfg vp lim_down rl req0 form 100 uuid_a uuid_r (open_session T))
     = (Inl StorageError, rl, open_session T)"
  by (simp add: login_route_def check_request_limit_down db_close_def open_session_def)

text \<open>
  C8. The code where the claim fails: the Redis server answers the ping when the
  application starts and is unreachable when a login arrives. The body of \<open>login\<close>
  fails open, as claimed: with the right password it returns the tokens, with a wrong
  one it answers 401. The endpoint as served does not reach the body: the check of
  the decorator raises the exception of the storage, and the request ends with it
  (status 500), the tables as they were.
\<close>

theorem store_outage_fails_login:
  "limiter_init server_failing = lim_down
   \<and> \<not> isl (fst (login default_settings vp0 rl_down req0 form_ok 100 ''ua'' ''ub''
                    (open_session db2)))
   \<and> fst (login_route default_settings vp0 lim_down rl_down req0 form_ok 100 ''ua'' ''ub''
            (open_session db2))
       = (Inl StorageError, rl_down, open_session db2)
   \<and> fst (login default_settings vp0 rl_down req0 form_wrong 100 ''ua'' ''ub''
            (open_session db2))
       = Inl (Http (HTTPException 401 (Wrong_email_or_password 5) []))
   \<and> fst (login_route default_settings vp0 lim_down rl_down req0 form_wrong 100 ''ua'' ''ub''
            (open_session db2))
       = (Inl StorageError, rl_down, open_session db2)"
  using login_body_open_sample login_body_wrong_sample limiter_init_failing
  by (simp add: login_route_down)

text \<open>
  A reset that fails is not harmless either. With the counter at 3 and a store whose
  \<open>DELETE\<close> raises once, a login with the right password succeeds, the counter stays
  at 4, and the next login with the right password is answered 429.
\<close>

lemma failed_reset_locks_next_login:
  "map (\<lambda>r. case r of Inl e \<Rightarrow> Some e | Inr tokens \<Rightarrow> None)
     (attempts default_settings vp0 req0 ''a@b.com'' 100
        [(''secret'', ''a1'', ''b1''), (''secret'', ''a2'', ''b2'')] rl_reset_fails db2)
   = [None, Some (Http (HTTPException 429 (Account_locked 5 16) []))]"
  by (simp add: login_def Let_def get_key_def record_failed_login_def
      reset_failed_logins_def get_lockout_ttl_def redis_get_def redis_setex_def
      redis_delete_def redis_ttl_def pop_fault_def live_def rl_reset_fails_def
      default_settings_def open_session_def db_close_def db_commit_def db2_def alice_def
      bob_def r1_def vp0_def create_refresh_token_def create_access_token_def
      subject_only_def agent_of_def get_client_ip_def req0_def truthy_def)

section \<open>Lockout threshold\<close>

lemma key0: "get_key ''brute_force'' (get_client_ip req0 @ '':a@b.com'') = bf_key"
  by (simp add: get_key_def get_client_ip_def req0_def truthy_def bf_key_def)

lemma wrong_first:
  "login default_settings vp0 rl_up req0 \<lparr>username = ''a@b.com'', password = ''wrong''\<rparr> 100 ua ur
     (open_session db2) =
   (Inl (Http (HTTPException 401 (Wrong_email_or_password 4) [])), counted 1, open_session db2)"
  by (simp add: login_def Let_def key0 record_failed_login_def get_remaining_attempts_def
      wrong_credentials_def redis_get_def redis_setex_def pop_fault_def live_def rl_up_def
      counted_def default_settings_def open_session_def db_close_def db2_def alice_def bob_def
      vp0_def)

lemma wrong_next:
  "0 < n \<Longrightarrow> n < 4 \<Longrightarrow>
   login default_settings vp0 (counted n) req0 \<lparr>username = ''a@b.com'', password = ''wrong''\<rparr> 100
     ua ur (open_session db2) =
   (Inl (Http (HTTPException 401 (Wrong_email_or_password (4 - n)) [])), counted (n + 1),
    open_session db2)"
  by (simp add: login_def Let_def key0 record_failed_login_def get_remaining_attempts_def
      wrong_credentials_def redis_get_def redis_setex_def pop_fault_def live_def
      counted_def default_settings_def open_session_def db_close_def db2_def alice_def bob_def
      vp0_def)

lemma right_fifth:
  "fst (login default_settings vp0 (counted 4) req0 \<lparr>username = ''a@b.com'', password = ''secret''\<rparr>
     100 ua ur (open_session db2)) =
   Inl (Http (HTTPException 429 (Account_locked 5 16) []))"
  by (simp add: login_def Let_def key0 record_failed_login_def get_lockout_ttl_def
      redis_get_def redis_setex_def redis_ttl_def pop_fault_def live_def
      counted_def default_settings_def)


lemma right_fourth:
  "\<not> isl (fst (login default_settings vp0 (counted 3) req0
                  \<lparr>username = ''a@b.com'', password = ''secret''\<rparr> 100 ''ua'' ''ub''
                  (open_session db2)))"
  by (simp add: login_def Let_def key0 record_failed_login_def reset_failed_logins_def
      redis_get_def redis_setex_def redis_delete_def pop_fault_def live_def
      counted_def default_settings_def open_session_def db2_def alice_def bob_def r1_def
      vp0_def create_refresh_token_def)

lemma durable_open: "durable (open_session T) = T"
  by (simp add: open_session_def)

text \<open>
  C1. The code at the default \<open>BRUTE_FORCE_MAX_ATTEMPTS = 5\<close>, healthy store: four
  logins with a wrong password are answered 401 with 4, 3, 2 and 1 attempts left; the
  fifth, with the right password, is answered 429. The claim has a login with right
  credentials succeed after any number of failures below five, and 0 attempts left
  reported before the lockout. (\<open>login\<close> calls \<open>record_failed_login\<close> before it looks
  at the credentials, so every attempt counts as a failure; \<open>login_locked_iff\<close> has the
  threshold for every setting.)
\<close>

theorem lockout_after_four_failures:
  "attempts default_settings vp0 req0 ''a@b.com'' 100
     [(''wrong'', ''a1'', ''b1''), (''wrong'', ''a2'', ''b2''), (''wrong'', ''a3'', ''b3''),
      (''wrong'', ''a4'', ''b4''), (''secret'', ''a5'', ''b5'')] rl_up db2 =
   [Inl (Http (HTTPException 401 (Wrong_email_or_password 4) [])),
    Inl (Http (HTTPException 401 (Wrong_email_or_password 3) [])),
    Inl (Http (HTTPException 401 (Wrong_email_or_password 2) [])),
    Inl (Http (HTTPException 401 (Wrong_email_or_password 1) [])),
    Inl (Http (HTTPException 429 (Account_locked 5 16) []))]"
  using wrong_next[of 1 "''a2''" "''b2''"] wrong_next[of 2 "''a3''" "''b3''"]
    wrong_next[of 3 "''a4''" "''b4''"] right_fifth[of "''a5''" "''b5''"]
  by (simp add: wrong_first case_prod_beta durable_open)

text \<open>
  With a healthy store, a login is answered 429 exactly when the counter before it,
  plus one for the attempt itself, reaches \<open>BRUTE_FORCE_MAX_ATTEMPTS\<close>, whatever the
  credentials.
\<close>

lemma login_locked_iff:
  assumes "redis_client rl = Some r" and "faults r = []"
    and "0 < BRUTE_FORCE_LOCKOUT_MINUTES cfg"
  shows "(\<exists>d h. fst (login cfg vp rl req form now uuid_a uuid_r s)
                  = Inl (Http (HTTPException 429 d h)))
     \<longleftrightarrow> BRUTE_FORCE_MAX_ATTEMPTS cfg
           \<le> (case live (kv r) now (get_key ''brute_force''
                                       (get_client_ip req @ '':'' @ username form)) of
                 None \<Rightarrow> 0 | Some (a, t) \<Rightarrow> a) + 1"
proof -
  let ?i = "get_client_ip req @ '':'' @ username form"
  let ?k = "(case live (kv r) now (get_key ''brute_force'' ?i) of None \<Rightarrow> 0 | Some (a, t) \<Rightarrow> a) + 1"
  have rec: "fst (record_failed_login cfg rl now ?i) = (?k, BRUTE_FORCE_MAX_ATTEMPTS cfg \<le> ?k)"
    using assms
    by (simp add: record_failed_login_def redis_get_def redis_setex_def pop_fault_def Let_def
        split: option.splits prod.splits)
  show ?thesis
  proof (cases "BRUTE_FORCE_MAX_ATTEMPTS cfg \<le> ?k")
    case True
    with rec show ?thesis by (simp add: login_def Let_def)
  next
    case False
    with rec show ?thesis
      by (auto simp: login_def Let_def wrong_credentials_def create_refresh_token_def
          split: option.splits sum.splits prod.splits if_splits)
  qed
qed


section \<open>The login endpoint as served\<close>

text \<open>
  With a healthy store the decorator counts the request under its two keys and lets it
  pass to the body.
\<close>

lemma check_request_limit_up:
  "check_request_limit lim_up req0 100 ''app.api.auth.login'' login_limits =
     (Inr (Some \<lparr>amount = 10, expiry = 60, item_text = ''10/1/minute''\<rparr>),
      \<lparr>storage = \<lparr>kv = [''LIMITER/1.2.3.4/app.api.auth.login/10/1/minute'' \<mapsto> (1, Some 160),
                         ''LIMITER/1.2.3.4/app.api.auth.login/50/1/hour'' \<mapsto> (1, Some 3700)],
                   faults = []\<rparr>\<rparr>)"
  by (simp add: check_request_limit_def limiter_get_client_ip_def login_limits_def
      limit_key_def redis_incr_def incr_kv_def expire_kv_def live_def pop_fault_def
      lim_up_def req0_def truthy_def Let_def)

lemma login_route_healthy:
  "login_route default_settings vp0 lim_up rl_up req0 form_wrong 100 ''ua'' ''ub''
     (open_session db2)
   = ((Inl (Http (HTTPException 401 (Wrong_email_or_password 4) [])), counted 1,
       open_session db2),
      \<lparr>storage = \<lparr>kv = [''LIMITER/1.2.3.4/app.api.auth.login/10/1/minute'' \<mapsto> (1, Some 160),
                         ''LIMITER/1.2.3.4/app.api.auth.login/50/1/hour'' \<mapsto> (1, Some 3700)],
                   faults = []\<rparr>\<rparr>)"
  by (simp add: login_route_def check_request_limit_up form_wrong_def wrong_first)

end
